theory Spec2Isabelle
  imports Main "HOL-Library.List_Lexorder" "HOL-Library.Char_ord"
begin

section \<open>JavaScript strings and arrays\<close>

text \<open>
  Strings are lists of bytes (the UTF-8 text of the scripts). The source compares,
  sorts and trims UTF-16 strings; on ASCII text both views agree, and the names this
  tooling handles (module, app and package names) are ASCII. Characters outside ASCII are
  carried along unchanged: they are neither white space nor letters here.
\<close>

definition nl :: char where
  "nl = CHR 0x0A"

definition tab :: char where
  "tab = CHR 0x09"

text \<open>White space as \<^verbatim>\<open>String.prototype.trim\<close> and the regex class \<^verbatim>\<open>\s\<close> see it (ASCII part).\<close>

definition is_space :: "char \<Rightarrow> bool" where
  "is_space c =
     (c = CHR 0x20 \<or> c = CHR 0x09 \<or> c = CHR 0x0A \<or> c = CHR 0x0B \<or> c = CHR 0x0C \<or> c = CHR 0x0D)"

definition is_lower :: "char \<Rightarrow> bool" where
  "is_lower c = (CHR ''a'' \<le> c \<and> c \<le> CHR ''z'')"

definition is_upper :: "char \<Rightarrow> bool" where
  "is_upper c = (CHR ''A'' \<le> c \<and> c \<le> CHR ''Z'')"

definition is_digit :: "char \<Rightarrow> bool" where
  "is_digit c = (CHR ''0'' \<le> c \<and> c \<le> CHR ''9'')"

text \<open>\<^verbatim>\<open>toUpperCase\<close> on one character: ASCII letters change, every other byte stays.\<close>

definition to_upper :: "char \<Rightarrow> char" where
  "to_upper c =
     (case map_of (zip ''abcdefghijklmnopqrstuvwxyz'' ''ABCDEFGHIJKLMNOPQRSTUVWXYZ'') c of
        Some u \<Rightarrow> u
      | None \<Rightarrow> c)"

text \<open>\<^verbatim>\<open>s.trim()\<close>\<close>

definition trim :: "string \<Rightarrow> string" where
  "trim s = rev (dropWhile is_space (rev (dropWhile is_space s)))"

text \<open>\<^verbatim>\<open>s.split(c)\<close> for a one-character separator: the empty string gives one empty piece.\<close>

fun split_from :: "char \<Rightarrow> string \<Rightarrow> string \<Rightarrow> string list" where
  "split_from c cur [] = [cur]"
| "split_from c cur (x # xs) =
     (if x = c then cur # split_from c [] xs else split_from c (cur @ [x]) xs)"

definition split_on :: "char \<Rightarrow> string \<Rightarrow> string list" where
  "split_on c s = split_from c [] s"

text \<open>\<^verbatim>\<open>xs.join(sep)\<close>\<close>

fun join :: "string \<Rightarrow> string list \<Rightarrow> string" where
  "join sep [] = []"
| "join sep [x] = x"
| "join sep (x # y # ys) = x @ sep @ join sep (y # ys)"

text \<open>\<^verbatim>\<open>xs.indexOf(x)\<close>: the first position of \<open>x\<close>; \<open>None\<close> stands for \<open>-1\<close>.\<close>

fun indexOf :: "'a list \<Rightarrow> 'a \<Rightarrow> nat option" where
  "indexOf [] x = None"
| "indexOf (y # ys) x = (if y = x then Some 0 else map_option Suc (indexOf ys x))"

text \<open>\<^verbatim>\<open>xs[i]\<close>: \<open>None\<close> stands for \<open>undefined\<close> (a read past the end).\<close>

definition at_index :: "'a list \<Rightarrow> nat \<Rightarrow> 'a option" where
  "at_index xs i = (if i < length xs then Some (xs ! i) else None)"

definition startsWith :: "string \<Rightarrow> string \<Rightarrow> bool" where
  "startsWith s p = (take (length p) s = p)"

definition endsWith :: "string \<Rightarrow> string \<Rightarrow> bool" where
  "endsWith s p = (length p \<le> length s \<and> drop (length s - length p) s = p)"

text \<open>\<^verbatim>\<open>String(n)\<close> for a natural number (template literals print counts this way).\<close>

fun show_nat :: "nat \<Rightarrow> string" where
  "show_nat n =
     (if n < 10 then [char_of (48 + n)]
      else show_nat (n div 10) @ [char_of (48 + n mod 10)])"

declare show_nat.simps [simp del]

text \<open>The symbols of the console messages and of the manifest header, as UTF-8 bytes.\<close>

definition cross_mark :: string where
  "cross_mark = [CHR 0xE2, CHR 0x9D, CHR 0x8C]"

definition warning_sign :: string where
  "warning_sign = [CHR 0xE2, CHR 0x9A, CHR 0xA0, CHR 0xEF, CHR 0xB8, CHR 0x8F]"

definition check_mark :: string where
  "check_mark = [CHR 0xE2, CHR 0x9C, CHR 0x85]"

definition package_sign :: string where
  "package_sign = [CHR 0xF0, CHR 0x9F, CHR 0x93, CHR 0xA6]"

definition page_sign :: string where
  "page_sign = [CHR 0xF0, CHR 0x9F, CHR 0x93, CHR 0x84]"

definition magnifier_right :: string where
  "magnifier_right = [CHR 0xF0, CHR 0x9F, CHR 0x94, CHR 0x8E]"

definition magnifier_left :: string where
  "magnifier_left = [CHR 0xF0, CHR 0x9F, CHR 0x94, CHR 0x8D]"

definition rocket_sign :: string where
  "rocket_sign = [CHR 0xF0, CHR 0x9F, CHR 0x9A, CHR 0x80]"

definition cycle_sign :: string where
  "cycle_sign = [CHR 0xF0, CHR 0x9F, CHR 0x94, CHR 0x84]"

definition party_sign :: string where
  "party_sign = [CHR 0xF0, CHR 0x9F, CHR 0x8E, CHR 0x89]"

definition memo_sign :: string where
  "memo_sign = [CHR 0xF0, CHR 0x9F, CHR 0x93, CHR 0x9D]"

definition em_dash :: string where
  "em_dash = [CHR 0xE2, CHR 0x80, CHR 0x94]"

definition branch_sign :: string where
  "branch_sign = [CHR 0xE2, CHR 0x94, CHR 0x94, CHR 0xE2, CHR 0x94, CHR 0x80]"

section \<open>JavaScript objects used as records\<close>

text \<open>
  A \<^verbatim>\<open>Record<string, T>\<close> is the list of its own properties in insertion order.
  \<^verbatim>\<open>Object.entries\<close> lists the keys that are array indices first, in ascending numeric
  order, and then the other keys in insertion order. An assignment to the key
  \<^verbatim>\<open>__proto__\<close> sets the prototype and creates no own property.
\<close>

type_synonym 'v js_object = "(string \<times> 'v) list"

definition decimal_value :: "string \<Rightarrow> nat" where
  "decimal_value s = foldl (\<lambda>n c. 10 * n + (of_char c - 48)) 0 s"

definition is_array_index :: "string \<Rightarrow> bool" where
  "is_array_index k =
     (k \<noteq> [] \<and> list_all is_digit k \<and> (k = ''0'' \<or> hd k \<noteq> CHR ''0'')
      \<and> decimal_value k < 4294967295)"

definition object_set :: "'v js_object \<Rightarrow> string \<Rightarrow> 'v \<Rightarrow> 'v js_object" where
  "object_set obj k v =
     (if k = ''__proto__'' then obj
      else if k \<in> set (map fst obj) then map (\<lambda>e. if fst e = k then (k, v) else e) obj
      else obj @ [(k, v)])"

definition object_entries :: "'v js_object \<Rightarrow> (string \<times> 'v) list" where
  "object_entries obj =
     sort_key (\<lambda>e. decimal_value (fst e)) (filter (\<lambda>e. is_array_index (fst e)) obj)
     @ filter (\<lambda>e. \<not> is_array_index (fst e)) obj"

section \<open>Paths and the file system\<close>

text \<open>
  A path is the list of the segments of a normalised absolute POSIX path, so the root
  directory is the empty list. \<^verbatim>\<open>path.join\<close> and \<^verbatim>\<open>path.resolve\<close> of an absolute
  base with relative parts split the parts at \<open>/\<close>, drop empty and \<open>.\<close> segments and let
  \<open>..\<close> remove the segment before it (at the root it removes nothing). Symbolic links
  and trailing slashes are not modelled.
\<close>

type_synonym path = "string list"

fun normalize_from :: "path \<Rightarrow> string list \<Rightarrow> path" where
  "normalize_from acc [] = acc"
| "normalize_from acc (s # ss) =
     (if s = [] \<or> s = ''.'' then normalize_from acc ss
      else if s = ''..'' then normalize_from (butlast acc) ss
      else normalize_from (acc @ [s]) ss)"

definition path_join :: "path \<Rightarrow> string list \<Rightarrow> path" where
  "path_join base parts = normalize_from base (concat (map (split_on CHR ''/'') parts))"

definition path_string :: "path \<Rightarrow> string" where
  "path_string p = (if p = [] then ''/'' else concat (map (\<lambda>s. CHR ''/'' # s) p))"

text \<open>\<^verbatim>\<open>path.relative(from, to)\<close> on normalised absolute paths.\<close>

fun relative_segments :: "path \<Rightarrow> path \<Rightarrow> string list" where
  "relative_segments (a # as) (b # bs) =
     (if a = b then relative_segments as bs
      else replicate (length (a # as)) ''..'' @ (b # bs))"
| "relative_segments as bs = replicate (length as) ''..'' @ bs"

definition path_relative :: "path \<Rightarrow> path \<Rightarrow> string" where
  "path_relative from_dir to_path = join ''/'' (relative_segments from_dir to_path)"

text \<open>
  The file system maps a path to its node. A directory carries the names
  \<^verbatim>\<open>readdirSync\<close> lists, in the order it lists them; the kind of a directory entry is
  the kind of the node at the child path.
\<close>

datatype node = File string | Dir "string list"

type_synonym filesystem = "path \<Rightarrow> node option"

definition is_directory :: "filesystem \<Rightarrow> path \<Rightarrow> bool" where
  "is_directory d p = (case d p of Some (Dir names) \<Rightarrow> True | _ \<Rightarrow> False)"

section \<open>Programs: console, effects, exits and exceptions\<close>

text \<open>
  A run of a script starts in a world (the disk, the console output so far, the
  mutations performed so far) and ends in a world, either normally or halted:
  \<^verbatim>\<open>process.exit(code)\<close> or an exception nobody caught (for which Node exits with
  code 1 as well). What was printed and written before a halt stays.
\<close>

datatype message = Log string | Warn string | Err string

datatype effect =
  WriteFile path string
| MkDir path
| Exec string path "(string \<times> string) list"

datatype halt = Exit nat | Uncaught string

record world =
  disk :: filesystem
  console :: "message list"
  effects :: "effect list"

type_synonym 'a prog = "world \<Rightarrow> (halt + 'a) \<times> world"

definition return :: "'a \<Rightarrow> 'a prog" where
  "return a w = (Inr a, w)"

definition andThen :: "'a prog \<Rightarrow> ('a \<Rightarrow> 'b prog) \<Rightarrow> 'b prog" where
  "andThen m f w = (case m w of (Inl e, w') \<Rightarrow> (Inl e, w') | (Inr a, w') \<Rightarrow> f a w')"

definition process_exit :: "nat \<Rightarrow> 'a prog" where
  "process_exit code w = (Inl (Exit code), w)"

definition throw :: "string \<Rightarrow> 'a prog" where
  "throw e w = (Inl (Uncaught e), w)"

text \<open>\<^verbatim>\<open>try { m } catch { handler }\<close>: an exit is not an exception and passes through.\<close>

definition try_catch :: "unit prog \<Rightarrow> unit prog \<Rightarrow> unit prog" where
  "try_catch m handler w =
     (case m w of (Inl (Uncaught e), w') \<Rightarrow> handler w' | r \<Rightarrow> r)"

definition console_log :: "string \<Rightarrow> unit prog" where
  "console_log s w = (Inr (), w\<lparr>console := console w @ [Log s]\<rparr>)"

definition console_warn :: "string \<Rightarrow> unit prog" where
  "console_warn s w = (Inr (), w\<lparr>console := console w @ [Warn s]\<rparr>)"

definition console_error :: "string \<Rightarrow> unit prog" where
  "console_error s w = (Inr (), w\<lparr>console := console w @ [Err s]\<rparr>)"

text \<open>\<^verbatim>\<open>for (const x of xs) body\<close>, the loop's variables passed along as \<open>s\<close>.\<close>

fun for_each :: "'a list \<Rightarrow> ('a \<Rightarrow> 's \<Rightarrow> 's prog) \<Rightarrow> 's \<Rightarrow> 's prog" where
  "for_each [] body s = return s"
| "for_each (x # xs) body s = andThen (body x s) (for_each xs body)"

subsection \<open>node:fs\<close>

definition existsSync :: "path \<Rightarrow> bool prog" where
  "existsSync p w = (Inr (disk w p \<noteq> None), w)"

definition readFileSync :: "path \<Rightarrow> string prog" where
  "readFileSync p w =
     (case disk w p of
        Some (File c) \<Rightarrow> (Inr c, w)
      | Some (Dir names) \<Rightarrow> (Inl (Uncaught ''EISDIR''), w)
      | None \<Rightarrow> (Inl (Uncaught ''ENOENT''), w))"

text \<open>\<^verbatim>\<open>readdirSync(p, { withFileTypes: true })\<close>: each entry with \<^verbatim>\<open>isDirectory()\<close>.\<close>

definition readdirSync :: "path \<Rightarrow> (string \<times> bool) list prog" where
  "readdirSync p w =
     (case disk w p of
        Some (Dir names) \<Rightarrow> (Inr (map (\<lambda>n. (n, is_directory (disk w) (p @ [n]))) names), w)
      | Some (File c) \<Rightarrow> (Inl (Uncaught ''ENOTDIR''), w)
      | None \<Rightarrow> (Inl (Uncaught ''ENOENT''), w))"

text \<open>
  \<^verbatim>\<open>writeFileSync(p, content)\<close> creates or replaces a file in an existing directory
  and throws when the parent is no directory or the path is a directory.
\<close>

definition writeFileSync :: "path \<Rightarrow> string \<Rightarrow> unit prog" where
  "writeFileSync p content w =
     (case disk w (butlast p) of
        Some (Dir names) \<Rightarrow>
          (if p = [] \<or> is_directory (disk w) p then (Inl (Uncaught ''EISDIR''), w)
           else (Inr (),
                 w\<lparr>disk := (disk w)
                      (butlast p \<mapsto> Dir (if last p \<in> set names then names else names @ [last p]),
                       p \<mapsto> File content),
                   effects := effects w @ [WriteFile p content]\<rparr>))
      | _ \<Rightarrow> (Inl (Uncaught ''ENOENT''), w))"

text \<open>
  \<^verbatim>\<open>mkdirSync(p, { recursive: true })\<close>: walks down from the root and creates every
  missing directory; \<open>None\<close> when a file is in the way.
\<close>

fun make_directories :: "filesystem \<Rightarrow> path \<Rightarrow> string list \<Rightarrow> filesystem option" where
  "make_directories d pre [] = Some d"
| "make_directories d pre (s # ss) =
     (case d (pre @ [s]) of
        Some (File c) \<Rightarrow> None
      | Some (Dir names) \<Rightarrow> make_directories d (pre @ [s]) ss
      | None \<Rightarrow>
          (case d pre of
             Some (Dir names) \<Rightarrow>
               make_directories (d(pre @ [s] \<mapsto> Dir [], pre \<mapsto> Dir (names @ [s]))) (pre @ [s]) ss
           | _ \<Rightarrow> None))"

definition mkdirSync_recursive :: "path \<Rightarrow> unit prog" where
  "mkdirSync_recursive p w =
     (case make_directories (disk w) [] p of
        None \<Rightarrow> (Inl (Uncaught ''ENOTDIR''), w)
      | Some d' \<Rightarrow> (Inr (), w\<lparr>disk := d', effects := effects w @ [MkDir p]\<rparr>))"

subsection \<open>What the scripts take from outside the repository\<close>

text \<open>
  The parsed root \<^verbatim>\<open>package.json\<close>, as the interface \<^verbatim>\<open>RootPackageJson\<close> declares it
  (the code also allows \<^verbatim>\<open>packages\<close> to be missing in the object form).
\<close>

datatype workspaces_field = WorkspacesArray "string list" | WorkspacesObject "string list option"

record RootPackageJson =
  packageManager :: "string option"
  workspaces :: "workspaces_field option"

datatype ejs_value = EjsString string | EjsList "string list"

text \<open>
  The host of a run: the directory of the running script (\<^verbatim>\<open>__dirname\<close>), the
  working directory of the process, and the
  library and system calls the scripts make: \<^verbatim>\<open>JSON.parse\<close> read at the type
  \<^verbatim>\<open>RootPackageJson\<close> (\<open>None\<close>: it throws), \<^verbatim>\<open>ejs.render\<close> (\<open>None\<close>: it throws), and the
  external commands behind \<^verbatim>\<open>execSync\<close> (whether the command succeeded, and the
  disk it leaves).
\<close>

record host =
  scriptDir :: path
  processCwd :: path
  jsonParse :: "string \<Rightarrow> RootPackageJson option"
  ejsRender :: "string \<Rightarrow> (string \<times> ejs_value) list \<Rightarrow> string option"
  runCommand :: "string \<Rightarrow> path \<Rightarrow> (string \<times> string) list \<Rightarrow> filesystem \<Rightarrow> bool \<times> filesystem"

definition JSON_parse :: "host \<Rightarrow> string \<Rightarrow> RootPackageJson prog" where
  "JSON_parse h s = (case jsonParse h s of None \<Rightarrow> throw ''SyntaxError'' | Some v \<Rightarrow> return v)"

definition ejs_render :: "host \<Rightarrow> string \<Rightarrow> (string \<times> ejs_value) list \<Rightarrow> string prog" where
  "ejs_render h template data =
     (case ejsRender h template data of None \<Rightarrow> throw ''ejs'' | Some s \<Rightarrow> return s)"

text \<open>\<^verbatim>\<open>execSync(command, { cwd, env })\<close> throws when the command fails.\<close>

definition execSync :: "host \<Rightarrow> string \<Rightarrow> path \<Rightarrow> (string \<times> string) list \<Rightarrow> unit prog" where
  "execSync h command cwd vars w =
     (case runCommand h command cwd vars (disk w) of
        (ok, d') \<Rightarrow>
          (if ok then Inr () else Inl (Uncaught ''Command failed''),
           w\<lparr>disk := d', effects := effects w @ [Exec command cwd vars]\<rparr>))"

section \<open>scripts/go-workspace-sync.ts\<close>

definition ROOT :: "host \<Rightarrow> path" where
  "ROOT h = path_join (scriptDir h) [''..'']"

definition GO_WORK_PATH :: "host \<Rightarrow> path" where
  "GO_WORK_PATH h = path_join (ROOT h) [''go.work'']"

definition GO_VERSION :: string where
  "GO_VERSION = ''1.23''"

text \<open>The messages of the script that the properties below mention.\<close>

definition no_globs_message :: string where
  "no_globs_message = cross_mark @ '' No workspace globs found. Check your workspace config.''"

definition no_modules_message :: string where
  "no_modules_message = cross_mark @ '' No Go modules found. Nothing to sync.''"

definition directory_not_found_message :: "string \<Rightarrow> string" where
  "directory_not_found_message baseDir =
     warning_sign @ ''  Directory not found: '' @ baseDir @ ''/''"

definition up_to_date_message :: string where
  "up_to_date_message = [nl] @ check_mark @ '' go.work is already up to date.''"

definition synced_message :: "nat \<Rightarrow> string" where
  "synced_message totalModules =
     [nl] @ check_mark @ '' go.work synced '' @ em_dash @ '' '' @ show_nat totalModules
     @ '' modules registered.''"

definition detectPackageManager :: "host \<Rightarrow> string prog" where
  "detectPackageManager h =
     (let pkgJsonPath = path_join (ROOT h) [''package.json''] in
      andThen (existsSync pkgJsonPath) (\<lambda>found.
      if \<not> found then return ''unknown''
      else
        andThen (readFileSync pkgJsonPath) (\<lambda>text.
        andThen (JSON_parse h text) (\<lambda>pkgJson.
        case packageManager pkgJson of
          Some (c # cs) \<Rightarrow>
            (let name = hd (split_on CHR ''@'' (c # cs)) in
             return (if name \<noteq> [] then name else ''unknown''))
        | _ \<Rightarrow>
            andThen (existsSync (path_join (ROOT h) [''pnpm-lock.yaml''])) (\<lambda>pnpm.
            if pnpm then return ''pnpm''
            else
              andThen (existsSync (path_join (ROOT h) [''yarn.lock''])) (\<lambda>yarn.
              if yarn then return ''yarn''
              else
                andThen (existsSync (path_join (ROOT h) [''package-lock.json''])) (\<lambda>npm.
                if npm then return ''npm'' else return ''unknown'')))))))"

text \<open>
  The line pattern of \<^verbatim>\<open>parsePnpmWorkspace\<close>,
  \<^verbatim>\<open>^-\s+["']?([^"']+)["']?\s*$\<close>, with the regex engine's order of attempts: every
  quantifier takes as much as it can first and gives back one character at a time.
  The result is the first capture found.
\<close>

definition is_quote :: "char \<Rightarrow> bool" where
  "is_quote c = (c = CHR 0x22 \<or> c = CHR 0x27)"

text \<open>\<^verbatim>\<open>["']?\s*$\<close>\<close>

definition tail_matches :: "string \<Rightarrow> bool" where
  "tail_matches s =
     (case s of
        [] \<Rightarrow> True
      | c # cs \<Rightarrow> (is_quote c \<and> list_all is_space cs) \<or> list_all is_space (c # cs))"

text \<open>\<^verbatim>\<open>([^"']+)\<close> followed by the tail: the longest capture of at most \<open>n\<close> characters.\<close>

fun capture_upto :: "nat \<Rightarrow> string \<Rightarrow> string option" where
  "capture_upto 0 s = None"
| "capture_upto (Suc n) s =
     (if tail_matches (drop (Suc n) s) then Some (take (Suc n) s) else capture_upto n s)"

definition capture :: "string \<Rightarrow> string option" where
  "capture s = capture_upto (length (takeWhile (\<lambda>c. \<not> is_quote c) s)) s"

text \<open>\<^verbatim>\<open>["']?\<close> before the capture: with the quote first, then without it.\<close>

definition quoted_capture :: "string \<Rightarrow> string option" where
  "quoted_capture s =
     (case s of
        [] \<Rightarrow> None
      | c # cs \<Rightarrow>
          if is_quote c then (case capture cs of Some g \<Rightarrow> Some g | None \<Rightarrow> capture s)
          else capture s)"

text \<open>\<^verbatim>\<open>\s+\<close> before that: \<open>n\<close> white-space characters, then \<open>n - 1\<close>, down to one.\<close>

fun spaces_then :: "nat \<Rightarrow> string \<Rightarrow> string option" where
  "spaces_then 0 s = None"
| "spaces_then (Suc n) s =
     (case quoted_capture (drop (Suc n) s) of Some g \<Rightarrow> Some g | None \<Rightarrow> spaces_then n s)"

definition match_list_item :: "string \<Rightarrow> string option" where
  "match_list_item t =
     (case t of
        [] \<Rightarrow> None
      | c # rest \<Rightarrow>
          if c = CHR ''-'' then spaces_then (length (takeWhile is_space rest)) rest else None)"

definition parsePnpmWorkspace :: "host \<Rightarrow> string list prog" where
  "parsePnpmWorkspace h =
     (let filePath = path_join (ROOT h) [''pnpm-workspace.yaml''] in
      andThen (existsSync filePath) (\<lambda>found.
      if \<not> found then
        andThen (console_warn (warning_sign @ ''  pnpm-workspace.yaml not found'')) (\<lambda>_.
        return [])
      else
        andThen (readFileSync filePath) (\<lambda>content.
        return (foldl (\<lambda>globs line.
                  case match_list_item (trim line) of
                    Some g \<Rightarrow> globs @ [g]
                  | None \<Rightarrow> globs) [] (split_on nl content)))))"

definition readPackageJsonWorkspaces :: "host \<Rightarrow> string list prog" where
  "readPackageJsonWorkspaces h =
     (let pkgJsonPath = path_join (ROOT h) [''package.json''] in
      andThen (existsSync pkgJsonPath) (\<lambda>found.
      if \<not> found then return []
      else
        andThen (readFileSync pkgJsonPath) (\<lambda>text.
        andThen (JSON_parse h text) (\<lambda>pkgJson.
        case workspaces pkgJson of
          None \<Rightarrow> return []
        | Some (WorkspacesArray globs) \<Rightarrow> return globs
        | Some (WorkspacesObject None) \<Rightarrow> return []
        | Some (WorkspacesObject (Some globs)) \<Rightarrow> return globs))))"

text \<open>
  The scan root of one glob (the loop body of \<^verbatim>\<open>resolveWorkspaceGlobs\<close>):
  \<^verbatim>\<open>glob.replace(/\/\*\*?$/, "").replace(/\/\*$/, "")\<close>. Both patterns are anchored at
  the end, so each \<^verbatim>\<open>replace\<close> removes a suffix or nothing.
\<close>

definition replace_star_suffix :: "string \<Rightarrow> string" where
  "replace_star_suffix s = (if endsWith s ''/*'' then take (length s - 2) s else s)"

definition replace_stars_suffix :: "string \<Rightarrow> string" where
  "replace_stars_suffix s =
     (if endsWith s ''/**'' then take (length s - 3) s else replace_star_suffix s)"

definition baseDir_of :: "string \<Rightarrow> string" where
  "baseDir_of glob = replace_star_suffix (replace_stars_suffix glob)"

definition resolveWorkspaceGlobs :: "string list \<Rightarrow> string list" where
  "resolveWorkspaceGlobs globs =
     sort (foldl (\<lambda>dirs glob.
             let baseDir = baseDir_of glob in
             if baseDir \<noteq> [] \<and> baseDir \<notin> set dirs then dirs @ [baseDir] else dirs) [] globs)"

text \<open>The globs of the detected package manager's configuration (the first half of
  \<^verbatim>\<open>getWorkspaceDirs\<close>).\<close>

definition readWorkspaceGlobs :: "host \<Rightarrow> string list prog" where
  "readWorkspaceGlobs h =
     andThen (detectPackageManager h) (\<lambda>pm.
     andThen (console_log (package_sign @ '' Detected package manager: '' @ pm)) (\<lambda>_.
     if pm = ''pnpm'' then
       andThen (console_log (page_sign @ '' Reading workspace config from: pnpm-workspace.yaml''))
         (\<lambda>_. parsePnpmWorkspace h)
     else
       andThen (console_log (page_sign @ '' Reading workspace config from: package.json workspaces''))
         (\<lambda>_. readPackageJsonWorkspaces h)))"

definition getWorkspaceDirs :: "host \<Rightarrow> string list prog" where
  "getWorkspaceDirs h =
     andThen (readWorkspaceGlobs h) (\<lambda>globs.
     if globs = [] then
       andThen (console_error no_globs_message) (\<lambda>_. process_exit 1)
     else
       (let dirs = resolveWorkspaceGlobs globs in
        andThen (console_log
                   (magnifier_right @ '' Workspace directories: '' @ join '', '' dirs @ [nl]))
          (\<lambda>_. return dirs)))"

definition discoverModules :: "host \<Rightarrow> string \<Rightarrow> string list prog" where
  "discoverModules h baseDir =
     (let fullBase = path_join (ROOT h) [baseDir] in
      andThen (existsSync fullBase) (\<lambda>found.
      if \<not> found then
        andThen (console_warn (directory_not_found_message baseDir)) (\<lambda>_. return [])
      else
        andThen (readdirSync fullBase) (\<lambda>entries.
        andThen (for_each entries (\<lambda>entry modules.
                   if \<not> snd entry then return modules
                   else
                     andThen (existsSync (path_join fullBase [fst entry, ''go.mod''])) (\<lambda>isModule.
                     return (if isModule then modules @ [''./'' @ baseDir @ ''/'' @ fst entry]
                             else modules))) [])
          (\<lambda>modules. return (sort modules)))))"

text \<open>The loop of \<^verbatim>\<open>generateGoWork\<close> over \<^verbatim>\<open>dirEntries\<close>: \<open>i\<close> is the index of the
  first remaining entry and \<open>n\<close> is \<^verbatim>\<open>dirEntries.length\<close>.\<close>

fun section_lines :: "nat \<Rightarrow> nat \<Rightarrow> (string \<times> string list) list \<Rightarrow> string list" where
  "section_lines i n [] = []"
| "section_lines i n ((dir, modules) # rest) =
     (if modules = [] then section_lines (i + 1) n rest
      else
        ([tab] @ ''// '' @ (case dir of [] \<Rightarrow> [] | c # cs \<Rightarrow> to_upper c # cs))
        # map (\<lambda>m. tab # m) modules
        @ (if i < n - 1 then [''''] else [])
        @ section_lines (i + 1) n rest)"

definition generateGoWork :: "string list js_object \<Rightarrow> string" where
  "generateGoWork modulesByDir =
     (let dirEntries = object_entries modulesByDir in
      join [nl]
        ([''// Auto-generated by scripts/go-workspace-sync.ts'',
          ''// Do NOT edit manually '' @ em_dash @ '' run: pnpm workspace:sync'',
          ''//'',
          ''// This file allows Go to recognize multiple modules within the repository'',
          ''// without needing manual 'replace' directives in each go.mod file.'',
          ''go '' @ GO_VERSION,
          '''',
          ''use ('']
         @ section_lines 0 (length dirEntries) dirEntries
         @ ['')'', '''']))"

text \<open>The discovery loop of \<^verbatim>\<open>main\<close>: \<^verbatim>\<open>modulesByDir\<close> and \<^verbatim>\<open>totalModules\<close>.\<close>

definition discoverAll :: "host \<Rightarrow> string list \<Rightarrow> (string list js_object \<times> nat) prog" where
  "discoverAll h scanDirs =
     for_each scanDirs (\<lambda>dir state.
       andThen (discoverModules h dir) (\<lambda>modules.
       andThen (if modules \<noteq> [] then
                  andThen (console_log (''  '' @ package_sign @ '' '' @ dir @ ''/'')) (\<lambda>_.
                  for_each modules (\<lambda>m u.
                    console_log (''     '' @ branch_sign @ '' '' @ m)) ())
                else return ()) (\<lambda>_.
       return (object_set (fst state) dir modules, snd state + length modules)))) ([], 0)"

text \<open>The end of \<^verbatim>\<open>main\<close>: compare with the existing manifest and write on a difference.\<close>

definition syncManifest :: "host \<Rightarrow> string list js_object \<Rightarrow> nat \<Rightarrow> unit prog" where
  "syncManifest h modulesByDir totalModules =
     (let content = generateGoWork modulesByDir in
      andThen (existsSync (GO_WORK_PATH h)) (\<lambda>found.
      andThen (if found then
                 andThen (readFileSync (GO_WORK_PATH h)) (\<lambda>existing.
                 return (existing = content))
               else return False) (\<lambda>same.
      if same then console_log up_to_date_message
      else
        andThen (writeFileSync (GO_WORK_PATH h) content) (\<lambda>_.
        console_log (synced_message totalModules)))))"

definition sync_main :: "host \<Rightarrow> unit prog" where
  "sync_main h =
     andThen (console_log (magnifier_left @ '' Scanning for Go modules...'' @ [nl])) (\<lambda>_.
     andThen (getWorkspaceDirs h) (\<lambda>scanDirs.
     andThen (discoverAll h scanDirs) (\<lambda>state.
     if snd state = 0 then
       andThen (console_error no_modules_message) (\<lambda>_. process_exit 1)
     else syncManifest h (fst state) (snd state))))"

section \<open>scripts/make-app.ts and tooling/scripts/make-package.ts\<close>

text \<open>Both scripts resolve \<^verbatim>\<open>ROOT\<close> two levels above their own directory.\<close>

definition scaffold_ROOT :: "host \<Rightarrow> path" where
  "scaffold_ROOT h = path_join (scriptDir h) [''..'', ''..'']"

definition APPS_DIR :: "host \<Rightarrow> path" where
  "APPS_DIR h = path_join (scaffold_ROOT h) [''apps'']"

definition PACKAGES_DIR :: "host \<Rightarrow> path" where
  "PACKAGES_DIR h = path_join (scaffold_ROOT h) [''packages'']"

definition app_STUBS_DIR :: "host \<Rightarrow> path" where
  "app_STUBS_DIR h = path_join (scriptDir h) [''.stubs'', ''app'']"

definition package_STUBS_DIR :: "host \<Rightarrow> path" where
  "package_STUBS_DIR h = path_join (scriptDir h) [''.stubs'', ''package'']"

definition capitalize :: "string \<Rightarrow> string" where
  "capitalize str = (case str of [] \<Rightarrow> [] | c # cs \<Rightarrow> to_upper c # cs)"

definition ensureDir :: "path \<Rightarrow> unit prog" where
  "ensureDir dir =
     andThen (existsSync dir) (\<lambda>found.
     if \<not> found then mkdirSync_recursive dir else return ())"

text \<open>\<^verbatim>\<open>renderStub\<close> is the same function in both scripts, over the script's own
  \<^verbatim>\<open>STUBS_DIR\<close>.\<close>

definition renderStub ::
  "host \<Rightarrow> path \<Rightarrow> string \<Rightarrow> (string \<times> ejs_value) list \<Rightarrow> string prog" where
  "renderStub h stubsDir stubPath ctx =
     (let fullPath = path_join stubsDir [stubPath] in
      andThen (existsSync fullPath) (\<lambda>found.
      if \<not> found then
        throw (''Stub not found: '' @ stubPath @ '' (looked in '' @ path_string fullPath @ '')'')
      else
        andThen (readFileSync fullPath) (\<lambda>template.
        ejs_render h template ctx)))"

text \<open>The name pattern \<^verbatim>\<open>/^[a-z][a-z0-9-]*$/\<close> (without the \<open>m\<close> flag \<open>$\<close> is the end of
  the string).\<close>

definition name_pattern :: "string \<Rightarrow> bool" where
  "name_pattern s =
     (case s of
        [] \<Rightarrow> False
      | c # cs \<Rightarrow> is_lower c \<and> list_all (\<lambda>x. is_lower x \<or> is_digit x \<or> x = CHR ''-'') cs)"

text \<open>
  \<^verbatim>\<open>parseDeps\<close> of \<^verbatim>\<open>scripts/make-app.ts\<close>: the token after the first \<^verbatim>\<open>--deps\<close>,
  split on commas, each piece trimmed, empty pieces dropped (\<^verbatim>\<open>filter(Boolean)\<close>).
\<close>

definition parseDeps :: "string list \<Rightarrow> string list" where
  "parseDeps args =
     (case indexOf args ''--deps'' of
        None \<Rightarrow> [''logger'']
      | Some depsIdx \<Rightarrow>
          if depsIdx + 1 \<ge> length args then [''logger'']
          else filter (\<lambda>d. d \<noteq> []) (map trim (split_on CHR '','' (args ! (depsIdx + 1)))))"

text \<open>The \<^verbatim>\<open>files\<close> object literal: every stub is rendered, in the order written, before
  the first file is written. None of its keys is an array index, so
  \<^verbatim>\<open>Object.entries\<close> keeps the order.\<close>

definition renderFiles ::
  "host \<Rightarrow> path \<Rightarrow> (string \<times> ejs_value) list \<Rightarrow> (string \<times> string) list
     \<Rightarrow> (string \<times> string) list prog" where
  "renderFiles h stubsDir ctx table =
     for_each table (\<lambda>row files.
       andThen (renderStub h stubsDir (snd row) ctx) (\<lambda>content.
       return (files @ [(fst row, content)]))) []"

definition writeFiles :: "path \<Rightarrow> (string \<times> string) list \<Rightarrow> unit prog" where
  "writeFiles targetDir files =
     for_each files (\<lambda>file u.
       andThen (writeFileSync (path_join targetDir [fst file]) (snd file)) (\<lambda>_.
       console_log (''  '' @ check_mark @ '' '' @ fst file))) ()"

definition hook_failed_warning :: string where
  "hook_failed_warning =
     [nl] @ warning_sign @ ''  Sync, setup, or dependency resolution failed '' @ em_dash
     @ '' run manually: pnpm setup && pnpm install''"

definition app_exists_message :: "string \<Rightarrow> string" where
  "app_exists_message name = cross_mark @ '' App already exists: apps/'' @ name @ ''/''"

definition package_exists_message :: "string \<Rightarrow> string" where
  "package_exists_message name =
     cross_mark @ '' Package already exists: packages/'' @ name @ ''/''"

text \<open>\<^verbatim>\<open>main\<close> of make-app.ts from the collision check on.\<close>

definition make_app_scaffold :: "host \<Rightarrow> string list \<Rightarrow> string \<Rightarrow> unit prog" where
  "make_app_scaffold h argv name =
     (let appDir = path_join (APPS_DIR h) [name] in
      andThen (existsSync appDir) (\<lambda>found.
      if found then
        andThen (console_error (app_exists_message name)) (\<lambda>_. process_exit 1)
      else
        (let deps = parseDeps argv;
             ctx = [(''name'', EjsString name),
                    (''nameTitle'', EjsString (capitalize name)),
                    (''deps'', EjsList deps)] in
         andThen (console_log ([nl] @ rocket_sign @ '' Creating app: '' @ name)) (\<lambda>_.
         andThen (console_log (''   Dependencies: ''
                    @ (if length deps > 0 then join '', '' deps else ''(none)'') @ [nl])) (\<lambda>_.
         andThen (ensureDir (path_join appDir [''src''])) (\<lambda>_.
         andThen (ensureDir (path_join appDir [''docker''])) (\<lambda>_.
         andThen (ensureDir (path_join appDir [''env''])) (\<lambda>_.
         andThen (renderFiles h (app_STUBS_DIR h) ctx
                    [(''src/main.go'', ''src/main.go.ejs''),
                     (''go.mod'', ''go.mod.ejs''),
                     (''package.json'', ''package.json.ejs''),
                     (''.air.toml'', ''.air.toml.ejs''),
                     (''env/.env.example'', ''.env.example.ejs''),
                     (''docker/Dockerfile'', ''Dockerfile.ejs''),
                     (''docker/compose.local.yaml'', ''docker/compose.local.yaml.ejs''),
                     (''docker/compose.dev.yaml'', ''docker/compose.dev.yaml.ejs''),
                     (''docker/compose.production.yaml'', ''docker/compose.production.yaml.ejs'')])
           (\<lambda>files.
         andThen (writeFiles appDir files) (\<lambda>_.
         andThen (console_log ([nl] @ cycle_sign
                    @ '' Syncing go.work and setting up environment...'')) (\<lambda>_.
         andThen (try_catch
                    (andThen (execSync h ''npx tsx tooling/scripts/go-workspace-sync.ts''
                                (scaffold_ROOT h) []) (\<lambda>_.
                     andThen (execSync h (''pnpm run --filter=@apps/'' @ name @ '' setup'')
                                (scaffold_ROOT h) []) (\<lambda>_.
                     andThen (execSync h ''go mod tidy'' appDir []) (\<lambda>_.
                     andThen (console_log ([nl] @ package_sign
                                @ '' Resolving workspace dependencies...'')) (\<lambda>_.
                     execSync h ''pnpm install'' (scaffold_ROOT h) [])))))
                    (console_warn hook_failed_warning)) (\<lambda>_.
         andThen (console_log ([nl] @ party_sign @ '' App '' @ [CHR 0x22] @ name @ [CHR 0x22]
                    @ '' created successfully!'')) (\<lambda>_.
         andThen (console_log ([nl] @ memo_sign @ '' Next steps:'')) (\<lambda>_.
         andThen (console_log (''   1. Review Turbo dependencies in apps/'' @ name
                    @ ''/package.json'')) (\<lambda>_.
         andThen (console_log (''   2. Add Go dependencies: cd apps/'' @ name
                    @ '' && go get ...'')) (\<lambda>_.
         andThen (console_log
                    ''   3. Update Dockerfile COPY lines if you add more shared packages'') (\<lambda>_.
         console_log (''   4. Run: pnpm dev --filter=@apps/'' @ name))))))))))))))))))"

definition make_app_main :: "host \<Rightarrow> string list \<Rightarrow> unit prog" where
  "make_app_main h argv =
     (if (case at_index argv 2 of None \<Rightarrow> True | Some name \<Rightarrow> name = [] \<or> startsWith name ''--'')
      then
        andThen (console_error
                   (cross_mark @ '' Usage: pnpm make:app <name> [--deps logger,http]'')) (\<lambda>_.
        andThen (console_error ''   Example: pnpm make:app notifications'') (\<lambda>_.
        andThen (console_error ''   Example: pnpm make:app payments --deps logger,config'') (\<lambda>_.
        process_exit 1)))
      else if \<not> name_pattern (the (at_index argv 2)) then
        andThen (console_error (cross_mark
                   @ '' App name must start with a letter and contain only lowercase alphanumeric characters or hyphens.''))
          (\<lambda>_. process_exit 1)
      else make_app_scaffold h argv (the (at_index argv 2)))"

text \<open>\<^verbatim>\<open>main\<close> of make-package.ts from the collision check on.\<close>

definition make_package_scaffold :: "host \<Rightarrow> string \<Rightarrow> unit prog" where
  "make_package_scaffold h name =
     (let pkgDir = path_join (PACKAGES_DIR h) [name] in
      andThen (existsSync pkgDir) (\<lambda>found.
      if found then
        andThen (console_error (package_exists_message name)) (\<lambda>_. process_exit 1)
      else
        (let ctx = [(''name'', EjsString name)] in
         andThen (console_log ([nl] @ package_sign @ '' Creating package: '' @ name @ [nl])) (\<lambda>_.
         andThen (ensureDir (path_join pkgDir [''src''])) (\<lambda>_.
         andThen (renderFiles h (package_STUBS_DIR h) ctx
                    [(''src/'' @ name @ ''.go'', ''__name__.go.ejs''),
                     (''go.mod'', ''go.mod.ejs''),
                     (''package.json'', ''package.json.ejs''),
                     (''.air.toml'', ''air.toml'')])
           (\<lambda>files.
         andThen (writeFiles pkgDir files) (\<lambda>_.
         andThen (console_log ([nl] @ cycle_sign
                    @ '' Syncing go.work and setting up package...'')) (\<lambda>_.
         andThen (try_catch
                    (andThen (execSync h ''npx tsx tooling/scripts/go-workspace-sync.ts''
                                (scaffold_ROOT h) []) (\<lambda>_.
                     andThen (execSync h (''pnpm run --filter=@packages/'' @ name @ '' setup'')
                                (scaffold_ROOT h) []) (\<lambda>_.
                     andThen (execSync h ''go mod tidy'' pkgDir []) (\<lambda>_.
                     andThen (console_log ([nl] @ package_sign
                                @ '' Resolving workspace dependencies...'')) (\<lambda>_.
                     execSync h ''pnpm install'' (scaffold_ROOT h) [])))))
                    (console_warn hook_failed_warning)) (\<lambda>_.
         andThen (console_log ([nl] @ party_sign @ '' Package '' @ [CHR 0x22] @ name
                    @ [CHR 0x22] @ '' created successfully!'')) (\<lambda>_.
         andThen (console_log ([nl] @ memo_sign @ '' Next steps:'')) (\<lambda>_.
         andThen (console_log
                    (''   1. Add as dependency in consuming apps' package.json: ''
                     @ [CHR 0x22] @ ''@packages/'' @ name @ [CHR 0x22] @ '': ''
                     @ [CHR 0x22] @ ''workspace:*'' @ [CHR 0x22])) (\<lambda>_.
         andThen (console_log (''   2. Import in Go: import '' @ [CHR 0x22]
                    @ ''fuelers-go/packages/'' @ name @ [CHR 0x22])) (\<lambda>_.
         console_log (''   3. Run: pnpm test --filter=@packages/'' @ name))))))))))))))"

definition make_package_main :: "host \<Rightarrow> string list \<Rightarrow> unit prog" where
  "make_package_main h argv =
     (if (case at_index argv 2 of None \<Rightarrow> True | Some name \<Rightarrow> name = [] \<or> startsWith name ''--'')
      then
        andThen (console_error (cross_mark @ '' Usage: pnpm make:package <name>'')) (\<lambda>_.
        andThen (console_error ''   Example: pnpm make:package middleware'') (\<lambda>_.
        process_exit 1))
      else if \<not> name_pattern (the (at_index argv 2)) then
        andThen (console_error (cross_mark
                   @ '' Package name must start with a letter and contain only lowercase alphanumeric characters or hyphens.''))
          (\<lambda>_. process_exit 1)
      else make_package_scaffold h (the (at_index argv 2)))"

section \<open>scripts/deploy-service.ts\<close>

text \<open>\<^verbatim>\<open>deployEnv\<close>: the argument after the first \<^verbatim>\<open>--env\<close> when there is one, else the
  environment variable \<^verbatim>\<open>DEPLOY_ENV\<close>.\<close>

definition deployEnv_of :: "string list \<Rightarrow> string option \<Rightarrow> string option" where
  "deployEnv_of argv DEPLOY_ENV =
     (case indexOf argv ''--env'' of
        Some envArgIdx \<Rightarrow> at_index argv (envArgIdx + 1)
      | None \<Rightarrow> DEPLOY_ENV)"

text \<open>The list \<^verbatim>\<open>candidates\<close>; an undefined or empty \<^verbatim>\<open>deployEnv\<close> is falsy.\<close>

definition candidates_of :: "string option \<Rightarrow> string list" where
  "candidates_of deployEnv =
     (case deployEnv of
        Some (c # cs) \<Rightarrow> [''compose.'' @ (c # cs) @ ''.yaml'', ''compose.'' @ (c # cs) @ ''.yml'']
      | _ \<Rightarrow> [])
     @ [''compose.yaml'', ''compose.yml'']"

definition compose_not_found_message :: "string \<Rightarrow> string" where
  "compose_not_found_message serviceName =
     cross_mark @ '' Error: No valid Docker Compose file found for service ''
     @ [CHR 0x22] @ serviceName @ [CHR 0x22] @ '' in apps/'' @ serviceName @ ''/docker/''"

definition checked_message :: "string list \<Rightarrow> string" where
  "checked_message candidates = ''Checked: '' @ join '', '' candidates"

definition compose_command :: "path \<Rightarrow> string" where
  "compose_command selectedFile =
     ''docker compose -f '' @ path_string selectedFile @ '' up -d --build''"

text \<open>The probing loop; after \<^verbatim>\<open>break\<close> the remaining candidates are not probed.\<close>

definition selectFile :: "path \<Rightarrow> string list \<Rightarrow> path option prog" where
  "selectFile dockerDir candidates =
     for_each candidates (\<lambda>file selectedFile.
       case selectedFile of
         Some p \<Rightarrow> return selectedFile
       | None \<Rightarrow>
           andThen (existsSync (path_join dockerDir [file])) (\<lambda>found.
           return (if found then Some (path_join dockerDir [file]) else None))) None"

definition deploy_main :: "host \<Rightarrow> string list \<Rightarrow> string option \<Rightarrow> unit prog" where
  "deploy_main h argv DEPLOY_ENV =
     (let deployEnv = deployEnv_of argv DEPLOY_ENV in
      case at_index argv 2 of
        None \<Rightarrow>
          andThen (console_error (cross_mark @ '' Error: Service name is required.''))
            (\<lambda>_. process_exit 1)
      | Some [] \<Rightarrow>
          andThen (console_error (cross_mark @ '' Error: Service name is required.''))
            (\<lambda>_. process_exit 1)
      | Some serviceName \<Rightarrow>
          (let serviceDir = path_join (ROOT h) [''apps'', serviceName] in
           andThen (existsSync serviceDir) (\<lambda>found.
           if \<not> found then
             andThen (console_error (cross_mark
                        @ '' Error: Service directory not found: apps/'' @ serviceName))
               (\<lambda>_. process_exit 1)
           else
             (let dockerDir = path_join serviceDir [''docker''];
                  candidates = candidates_of deployEnv in
              andThen (selectFile dockerDir candidates) (\<lambda>selectedFile.
              case selectedFile of
                None \<Rightarrow>
                  andThen (console_error (compose_not_found_message serviceName)) (\<lambda>_.
                  andThen (console_error (checked_message candidates)) (\<lambda>_.
                  process_exit 1))
              | Some selected \<Rightarrow>
                  (let envLabel =
                         (case deployEnv of
                            Some (c # cs) \<Rightarrow> ''['' @ map to_upper (c # cs) @ '']''
                          | _ \<Rightarrow> ''[DEFAULT]'') in
                   andThen (console_log ([nl] @ rocket_sign @ '' Orchestrating deployment for ''
                              @ envLabel @ '' '' @ serviceName @ ''...'')) (\<lambda>_.
                   andThen (console_log (page_sign @ '' Using config: ''
                              @ path_relative (ROOT h) selected @ [nl])) (\<lambda>_.
                   try_catch
                     (andThen (execSync h (compose_command selected) (processCwd h) [(''DEPLOY_ENV'',
                                      case deployEnv of Some (c # cs) \<Rightarrow> c # cs | _ \<Rightarrow> ''local'')])
                        (\<lambda>_.
                      console_log ([nl] @ check_mark @ '' Service '' @ serviceName
                                   @ '' deployed successfully.'')))
                     (andThen (console_error ([nl] @ cross_mark @ '' Deployment failed for ''
                                 @ serviceName @ ''. Check Docker logs.''))
                        (\<lambda>_. process_exit 1))))))))))"

section \<open>An example workspace\<close>

definition demo_package_json :: string where
  "demo_package_json =
     ''{'' @ [CHR 0x22] @ ''workspaces'' @ [CHR 0x22] @ '': ['' @ [CHR 0x22] @ ''apps/*''
     @ [CHR 0x22] @ '', '' @ [CHR 0x22] @ ''packages/*'' @ [CHR 0x22] @ '']}''"

text \<open>A descriptor whose second workspace glob names the manifest path.\<close>

definition odd_package_json :: string where
  "odd_package_json =
     ''{'' @ [CHR 0x22] @ ''workspaces'' @ [CHR 0x22] @ '': ['' @ [CHR 0x22] @ ''apps/*''
     @ [CHR 0x22] @ '', '' @ [CHR 0x22] @ ''go.work/*'' @ [CHR 0x22] @ '']}''"

definition demo_jsonParse :: "string \<Rightarrow> RootPackageJson option" where
  "demo_jsonParse s =
     (if s = demo_package_json
      then Some \<lparr>packageManager = None,
                 workspaces = Some (WorkspacesArray [''apps/*'', ''packages/*''])\<rparr>
      else if s = odd_package_json
      then Some \<lparr>packageManager = None,
                 workspaces = Some (WorkspacesArray [''apps/*'', ''go.work/*''])\<rparr>
      else if s = ''{}'' then Some \<lparr>packageManager = None, workspaces = None\<rparr>
      else None)"

definition demo_host :: host where
  "demo_host =
     \<lparr>scriptDir = [''repo'', ''scripts''], processCwd = [''repo''],
      jsonParse = demo_jsonParse,
      ejsRender = (\<lambda>template data. Some template),
      runCommand = (\<lambda>command cwd vars d. (True, d))\<rparr>"

definition demo_disk :: filesystem where
  "demo_disk = map_of
     [([], Dir [''repo'']),
      ([''repo''], Dir [''apps'', ''package.json'', ''packages'', ''scripts'']),
      ([''repo'', ''package.json''], File demo_package_json),
      ([''repo'', ''scripts''], Dir []),
      ([''repo'', ''apps''], Dir [''gateway'', ''auth'', ''tmp'']),
      ([''repo'', ''apps'', ''gateway''], Dir [''go.mod'', ''docker'']),
      ([''repo'', ''apps'', ''gateway'', ''go.mod''], File ''module gateway''),
      ([''repo'', ''apps'', ''gateway'', ''docker''], Dir [''compose.yaml'']),
      ([''repo'', ''apps'', ''gateway'', ''docker'', ''compose.yaml''], File ''services: {}''),
      ([''repo'', ''apps'', ''auth''], Dir [''go.mod'']),
      ([''repo'', ''apps'', ''auth'', ''go.mod''], File ''module auth''),
      ([''repo'', ''apps'', ''tmp''], Dir []),
      ([''repo'', ''packages''], Dir [''logger'']),
      ([''repo'', ''packages'', ''logger''], Dir [''go.mod'']),
      ([''repo'', ''packages'', ''logger'', ''go.mod''], File ''module logger'')]"

definition demo_world :: world where
  "demo_world = \<lparr>disk = demo_disk, console = [], effects = []\<rparr>"


text \<open>A checkout with no workspace configuration at all.\<close>

definition bare_world :: world where
  "bare_world =
     \<lparr>disk = map_of [([], Dir [''repo'']), ([''repo''], Dir [''scripts'']),
                       ([''repo'', ''scripts''], Dir [])],
      console = [], effects = []\<rparr>"

text \<open>A configured workspace in which no directory holds a \<^verbatim>\<open>go.mod\<close> yet.\<close>

definition unpopulated_world :: world where
  "unpopulated_world =
     \<lparr>disk = map_of [([], Dir [''repo'']),
                       ([''repo''], Dir [''apps'', ''package.json'', ''scripts'']),
                       ([''repo'', ''package.json''], File demo_package_json),
                       ([''repo'', ''scripts''], Dir []),
                       ([''repo'', ''apps''], Dir [''tmp'']),
                       ([''repo'', ''apps'', ''tmp''], Dir [])],
      console = [], effects = []\<rparr>"

text \<open>The scaffolding scripts run from \<^verbatim>\<open>tooling/scripts\<close> of the same checkout.\<close>

definition scaffold_host :: host where
  "scaffold_host = demo_host\<lparr>scriptDir := [''repo'', ''tooling'', ''scripts'']\<rparr>"


section \<open>The specification's reading of the Glob Resolver\<close>

text \<open>
  For comparison with \<open>baseDir_of\<close>, the resolver as the specification words it: strip
  one trailing \<^verbatim>\<open>/**\<close> or \<^verbatim>\<open>/*\<close> suffix, exactly one level, and take the remainder.
\<close>

definition spec_strip_once :: "string \<Rightarrow> string" where
  "spec_strip_once glob =
     (if endsWith glob ''/**'' then take (length glob - 3) glob
      else if endsWith glob ''/*'' then take (length glob - 2) glob
      else glob)"

section \<open>Notions used in the proofs\<close>

definition reader :: "'a prog \<Rightarrow> bool" where
  "reader m = (\<exists>f g. \<forall>w. m w = (f (disk w), w\<lparr>console := console w @ g (disk w)\<rparr>))"

definition plain_segment :: "string \<Rightarrow> bool" where
  "plain_segment s = (s \<noteq> [] \<and> s \<noteq> ''.'' \<and> s \<noteq> ''..'' \<and> CHR ''/'' \<notin> set s)"

definition manifest_listing :: "string list \<Rightarrow> string list" where
  "manifest_listing names = (if ''go.work'' \<in> set names then names else names @ [''go.work''])"

definition sync_scan :: "host \<Rightarrow> (string list js_object \<times> nat) prog" where
  "sync_scan h =
     andThen (console_log (magnifier_left @ '' Scanning for Go modules...'' @ [nl])) (\<lambda>_.
     andThen (getWorkspaceDirs h) (\<lambda>scanDirs. discoverAll h scanDirs))"

definition sync_finish :: "host \<Rightarrow> string list js_object \<times> nat \<Rightarrow> unit prog" where
  "sync_finish h state =
     (if snd state = 0 then andThen (console_error no_modules_message) (\<lambda>_. process_exit 1)
      else syncManifest h (fst state) (snd state))"

definition discover_step ::
  "host \<Rightarrow> string \<Rightarrow> string list js_object \<times> nat \<Rightarrow> (string list js_object \<times> nat) prog" where
  "discover_step h dir state =
     andThen (discoverModules h dir) (\<lambda>modules.
     andThen (if modules \<noteq> [] then
                andThen (console_log (''  '' @ package_sign @ '' '' @ dir @ ''/'')) (\<lambda>_.
                for_each modules (\<lambda>m u.
                  console_log (''     '' @ branch_sign @ '' '' @ m)) ())
              else return ()) (\<lambda>_.
     return (object_set (fst state) dir modules, snd state + length modules)))"

definition manifest_written :: "host \<Rightarrow> filesystem \<Rightarrow> filesystem \<Rightarrow> bool" where
  "manifest_written h d d' =
     (\<exists>names c. d (ROOT h) = Some (Dir names) \<and> \<not> is_directory d (GO_WORK_PATH h)
        \<and> d' = d(ROOT h \<mapsto> Dir (manifest_listing names), GO_WORK_PATH h \<mapsto> File c))"


section \<open>Facts about the string functions\<close>

lemma split_from_not_Nil: "split_from c cur s \<noteq> []"
  by (induction s arbitrary: cur) auto

lemma split_on_not_Nil: "split_on c s \<noteq> []"
  by (simp add: split_on_def split_from_not_Nil)








lemma indexOf_None: "x \<notin> set xs \<Longrightarrow> indexOf xs x = None"
  by (induction xs) auto

lemma indexOf_first: "x \<notin> set pre \<Longrightarrow> indexOf (pre @ x # post) x = Some (length pre)"
  by (induction pre) auto

section \<open>Programs that only read the disk\<close>

lemma readerI: "(\<And>w. m w = (f (disk w), w\<lparr>console := console w @ g (disk w)\<rparr>)) \<Longrightarrow> reader m"
  unfolding reader_def by blast

lemma reader_return: "reader (return a)"
  by (rule readerI [where f = "\<lambda>d. Inr a" and g = "\<lambda>d. []"]) (simp add: return_def)

lemma reader_process_exit: "reader (process_exit c)"
  by (rule readerI [where f = "\<lambda>d. Inl (Exit c)" and g = "\<lambda>d. []"]) (simp add: process_exit_def)

lemma reader_throw: "reader (throw e)"
  by (rule readerI [where f = "\<lambda>d. Inl (Uncaught e)" and g = "\<lambda>d. []"]) (simp add: throw_def)

lemma reader_console_log: "reader (console_log s)"
  by (rule readerI [where f = "\<lambda>d. Inr ()" and g = "\<lambda>d. [Log s]"]) (simp add: console_log_def)

lemma reader_console_warn: "reader (console_warn s)"
  by (rule readerI [where f = "\<lambda>d. Inr ()" and g = "\<lambda>d. [Warn s]"]) (simp add: console_warn_def)

lemma reader_console_error: "reader (console_error s)"
  by (rule readerI [where f = "\<lambda>d. Inr ()" and g = "\<lambda>d. [Err s]"]) (simp add: console_error_def)

lemma reader_existsSync: "reader (existsSync p)"
  by (rule readerI [where f = "\<lambda>d. Inr (d p \<noteq> None)" and g = "\<lambda>d. []"]) (simp add: existsSync_def)

lemma reader_readFileSync: "reader (readFileSync p)"
  by (rule readerI [where f = "\<lambda>d. case d p of Some (File c) \<Rightarrow> Inr c
          | Some (Dir names) \<Rightarrow> Inl (Uncaught ''EISDIR'') | None \<Rightarrow> Inl (Uncaught ''ENOENT'')"
        and g = "\<lambda>d. []"])
     (simp add: readFileSync_def split: option.splits node.splits)

lemma reader_readdirSync: "reader (readdirSync p)"
  by (rule readerI [where f = "\<lambda>d. case d p of
            Some (Dir names) \<Rightarrow> Inr (map (\<lambda>n. (n, is_directory d (p @ [n]))) names)
          | Some (File c) \<Rightarrow> Inl (Uncaught ''ENOTDIR'') | None \<Rightarrow> Inl (Uncaught ''ENOENT'')"
        and g = "\<lambda>d. []"])
     (simp add: readdirSync_def split: option.splits node.splits)

lemma reader_andThen:
  assumes m: "reader m" and k: "\<And>a. reader (k a)"
  shows "reader (andThen m k)"
proof -
  obtain f g where fg: "\<And>w. m w = (f (disk w), w\<lparr>console := console w @ g (disk w)\<rparr>)"
    using m unfolding reader_def by blast
  have "\<forall>a. \<exists>fg. \<forall>w. k a w = (fst fg (disk w), w\<lparr>console := console w @ snd fg (disk w)\<rparr>)"
    using k unfolding reader_def by auto
  then obtain FG where FG:
    "\<And>a w. k a w = (fst (FG a) (disk w), w\<lparr>console := console w @ snd (FG a) (disk w)\<rparr>)"
    by metis
  show ?thesis
  proof (rule readerI [where
        f = "\<lambda>d. case f d of Inl e \<Rightarrow> Inl e | Inr a \<Rightarrow> fst (FG a) d"
        and g = "\<lambda>d. g d @ (case f d of Inl e \<Rightarrow> [] | Inr a \<Rightarrow> snd (FG a) d)"])
    fix w
    show "andThen m k w =
      (case f (disk w) of Inl e \<Rightarrow> Inl e | Inr a \<Rightarrow> fst (FG a) (disk w),
       w\<lparr>console := console w @ g (disk w) @ (case f (disk w) of Inl e \<Rightarrow> [] | Inr a \<Rightarrow> snd (FG a) (disk w))\<rparr>)"
      by (cases "f (disk w)") (simp_all add: andThen_def fg FG)
  qed
qed

lemma reader_for_each:
  assumes "\<And>x s. reader (body x s)"
  shows "reader (for_each xs body s)"
proof (induction xs arbitrary: s)
  case Nil
  show ?case by (simp add: reader_return)
next
  case (Cons x xs)
  show ?case by (simp add: reader_andThen assms Cons)
qed


lemma reader_effects: "reader m \<Longrightarrow> effects (snd (m w)) = effects w"
  unfolding reader_def by auto

lemma reader_result: "reader m \<Longrightarrow> disk w = disk w' \<Longrightarrow> fst (m w) = fst (m w')"
  unfolding reader_def by auto

lemma reader_if: "(c \<Longrightarrow> reader a) \<Longrightarrow> (\<not> c \<Longrightarrow> reader b) \<Longrightarrow> reader (if c then a else b)"
  by simp

lemmas reader_intros = conjI impI allI reader_if reader_return reader_process_exit reader_throw reader_console_log
  reader_console_warn reader_console_error reader_existsSync reader_readFileSync
  reader_readdirSync reader_andThen reader_for_each

lemma reader_JSON_parse: "reader (JSON_parse h s)"
  by (simp add: JSON_parse_def reader_intros split: option.splits)

lemma reader_detectPackageManager: "reader (detectPackageManager h)"
  unfolding detectPackageManager_def Let_def
  by (intro reader_intros reader_JSON_parse | simp split: option.splits list.splits)+

lemma reader_parsePnpmWorkspace: "reader (parsePnpmWorkspace h)"
  unfolding parsePnpmWorkspace_def Let_def
  by (intro reader_intros | simp)+

lemma reader_readPackageJsonWorkspaces: "reader (readPackageJsonWorkspaces h)"
  unfolding readPackageJsonWorkspaces_def Let_def
  by (intro reader_intros reader_JSON_parse | simp split: option.splits workspaces_field.splits)+

lemma reader_readWorkspaceGlobs: "reader (readWorkspaceGlobs h)"
  unfolding readWorkspaceGlobs_def
  by (intro reader_intros reader_detectPackageManager reader_parsePnpmWorkspace
        reader_readPackageJsonWorkspaces | simp)+

lemma reader_getWorkspaceDirs: "reader (getWorkspaceDirs h)"
  unfolding getWorkspaceDirs_def Let_def
  by (intro reader_intros reader_readWorkspaceGlobs | simp)+

lemma reader_discoverModules: "reader (discoverModules h baseDir)"
  unfolding discoverModules_def Let_def
  by (intro reader_intros | simp)+

lemma reader_discoverAll: "reader (discoverAll h scanDirs)"
  unfolding discoverAll_def
  by (intro reader_intros reader_discoverModules | simp)+

lemma normalize_from_append:
  "normalize_from acc (ss @ ts) = normalize_from (normalize_from acc ss) ts"
  by (induction ss arbitrary: acc) auto

lemma split_from_plain: "c \<notin> set s \<Longrightarrow> split_from c cur s = [cur @ s]"
  by (induction s arbitrary: cur) auto

lemma split_on_plain: "c \<notin> set s \<Longrightarrow> split_on c s = [s]"
  by (simp add: split_on_def split_from_plain)

lemma path_join_snoc_plain:
  "plain_segment s \<Longrightarrow> path_join base (parts @ [s]) = path_join base parts @ [s]"
  by (simp add: path_join_def normalize_from_append split_on_plain plain_segment_def)

lemma path_join_plain: "plain_segment s \<Longrightarrow> path_join base [s] = base @ [s]"
  using path_join_snoc_plain [of s base "[]"] by (simp add: path_join_def)


lemma plain_go_work: "plain_segment ''go.work''"
  by (simp add: plain_segment_def)

lemma GO_WORK_PATH_eq: "GO_WORK_PATH h = ROOT h @ [''go.work'']"
  by (simp add: GO_WORK_PATH_def path_join_plain plain_go_work)

lemma discover_loop:
  "for_each (map (\<lambda>n. (n, isd n)) names)
     (\<lambda>entry modules.
         if \<not> snd entry then return modules
         else andThen (existsSync (path_join fullBase [fst entry, ''go.mod'']))
                (\<lambda>isModule. return (if isModule then modules @ [''./'' @ baseDir @ ''/'' @ fst entry]
                                     else modules)))
     acc w
   = (Inr (acc @ map (\<lambda>n. ''./'' @ baseDir @ ''/'' @ n)
                  (filter (\<lambda>n. isd n \<and> disk w (path_join fullBase [n, ''go.mod'']) \<noteq> None) names)),
      w)"
  by (induction names arbitrary: acc) (simp_all add: return_def andThen_def existsSync_def)

lemma discoverModules_missing:
  "disk w (path_join (ROOT h) [baseDir]) = None \<Longrightarrow>
   discoverModules h baseDir w
     = (Inr [], w\<lparr>console := console w
                   @ [Warn (directory_not_found_message baseDir)]\<rparr>)"
  by (simp add: discoverModules_def Let_def andThen_def existsSync_def console_warn_def return_def)


lemma discoverModules_dir:
  "disk w (path_join (ROOT h) [baseDir]) = Some (Dir names) \<Longrightarrow>
   discoverModules h baseDir w
     = (Inr (sort (map (\<lambda>n. ''./'' @ baseDir @ ''/'' @ n)
                (filter (\<lambda>n. is_directory (disk w) (path_join (ROOT h) [baseDir] @ [n])
                            \<and> disk w (path_join (path_join (ROOT h) [baseDir]) [n, ''go.mod'']) \<noteq> None)
                   names))), w)"
  by (simp add: discoverModules_def Let_def andThen_def existsSync_def readdirSync_def
      discover_loop return_def)




lemma butlast_GO_WORK_PATH: "butlast (GO_WORK_PATH h) = ROOT h"
  by (simp add: GO_WORK_PATH_eq)

lemma last_GO_WORK_PATH: "last (GO_WORK_PATH h) = ''go.work''"
  by (simp add: GO_WORK_PATH_eq)

lemma GO_WORK_PATH_not_Nil: "GO_WORK_PATH h \<noteq> []"
  by (simp add: GO_WORK_PATH_eq)


lemma syncManifest_same:
  "disk w (GO_WORK_PATH h) = Some (File (generateGoWork modulesByDir)) \<Longrightarrow>
   syncManifest h modulesByDir totalModules w
     = (Inr (), w\<lparr>console := console w @ [Log up_to_date_message]\<rparr>)"
  by (simp add: syncManifest_def Let_def andThen_def existsSync_def readFileSync_def return_def
      console_log_def up_to_date_message_def)

lemma syncManifest_dir:
  "disk w (GO_WORK_PATH h) = Some (Dir names) \<Longrightarrow>
   syncManifest h modulesByDir totalModules w = (Inl (Uncaught ''EISDIR''), w)"
  by (simp add: syncManifest_def Let_def andThen_def existsSync_def readFileSync_def)

lemma syncManifest_write:
  assumes "\<not> is_directory (disk w) (GO_WORK_PATH h)"
    and "disk w (GO_WORK_PATH h) \<noteq> Some (File (generateGoWork modulesByDir))"
    and "disk w (ROOT h) = Some (Dir names)"
  shows "syncManifest h modulesByDir totalModules w
     = (Inr (),
        w\<lparr>disk := (disk w)(ROOT h \<mapsto> Dir (manifest_listing names),
                            GO_WORK_PATH h \<mapsto> File (generateGoWork modulesByDir)),
          effects := effects w @ [WriteFile (GO_WORK_PATH h) (generateGoWork modulesByDir)],
          console := console w @ [Log (synced_message totalModules)]\<rparr>)"
proof (cases "disk w (GO_WORK_PATH h)")
  case None
  then show ?thesis
    using assms
    by (simp add: syncManifest_def Let_def andThen_def existsSync_def return_def
        writeFileSync_def butlast_GO_WORK_PATH last_GO_WORK_PATH console_log_def
        synced_message_def manifest_listing_def GO_WORK_PATH_not_Nil is_directory_def)
next
  case (Some n)
  then obtain c where c: "disk w (GO_WORK_PATH h) = Some (File c)"
    using assms(1) by (cases n) (auto simp: is_directory_def)
  then show ?thesis
    using assms
    by (simp add: syncManifest_def Let_def andThen_def existsSync_def readFileSync_def return_def
        writeFileSync_def butlast_GO_WORK_PATH last_GO_WORK_PATH console_log_def
        synced_message_def manifest_listing_def GO_WORK_PATH_not_Nil)
qed

lemma syncManifest_no_parent:
  assumes "\<not> is_directory (disk w) (GO_WORK_PATH h)"
    and "disk w (GO_WORK_PATH h) \<noteq> Some (File (generateGoWork modulesByDir))"
    and "\<not> is_directory (disk w) (ROOT h)"
  shows "syncManifest h modulesByDir totalModules w = (Inl (Uncaught ''ENOENT''), w)"
proof (cases "disk w (GO_WORK_PATH h)")
  case None
  then show ?thesis
    using assms
    by (auto simp add: syncManifest_def Let_def andThen_def existsSync_def return_def
        writeFileSync_def butlast_GO_WORK_PATH is_directory_def
        split: option.splits node.splits)
next
  case (Some n)
  then obtain c where c: "disk w (GO_WORK_PATH h) = Some (File c)"
    using assms(1) by (cases n) (auto simp: is_directory_def)
  then show ?thesis
    using assms
    by (auto simp add: syncManifest_def Let_def andThen_def existsSync_def readFileSync_def
        return_def writeFileSync_def butlast_GO_WORK_PATH is_directory_def
        split: option.splits node.splits)
qed

lemma andThen_assoc: "andThen (andThen m f) g = andThen m (\<lambda>x. andThen (f x) g)"
  by (rule ext) (simp add: andThen_def split: prod.splits sum.splits)

lemma sync_main_decomp: "sync_main h = andThen (sync_scan h) (sync_finish h)"
  unfolding sync_main_def sync_scan_def andThen_assoc sync_finish_def no_modules_message_def
  by (rule refl)

lemma reader_sync_scan: "reader (sync_scan h)"
  unfolding sync_scan_def
  by (intro reader_intros reader_getWorkspaceDirs reader_discoverAll)

lemma reader_run: "reader m \<Longrightarrow> \<exists>out. m w = (fst (m w), w\<lparr>console := console w @ out\<rparr>)"
  unfolding reader_def by auto

lemma andThen_Inl: "m w = (Inl e, w') \<Longrightarrow> andThen m k w = (Inl e, w')"
  by (simp add: andThen_def)

lemma andThen_Inr: "m w = (Inr a, w') \<Longrightarrow> andThen m k w = k a w'"
  by (simp add: andThen_def)

lemma andThen_Inr_elim:
  assumes "fst (andThen m k w) = Inr b"
  obtains a w' where "m w = (Inr a, w')" and "andThen m k w = k a w'"
proof (cases "m w")
  case (Pair r w')
  show ?thesis
  proof (cases r)
    case (Inl e)
    then show ?thesis using assms Pair by (simp add: andThen_def)
  next
    case (Inr a)
    then show ?thesis using that [of a w'] Pair by (simp add: andThen_def)
  qed
qed

text \<open>The outcomes of the last step of a run.\<close>

lemma sync_finish_outcome:
  fixes h st w
  defines "content \<equiv> generateGoWork (fst st)"
  shows "(\<exists>e out. sync_finish h st w = (Inl e, w\<lparr>console := console w @ out\<rparr>))
       \<or> (snd st \<noteq> 0 \<and> disk w (GO_WORK_PATH h) = Some (File content)
            \<and> sync_finish h st w = (Inr (), w\<lparr>console := console w @ [Log up_to_date_message]\<rparr>))
       \<or> (\<exists>names. snd st \<noteq> 0 \<and> \<not> is_directory (disk w) (GO_WORK_PATH h)
            \<and> disk w (GO_WORK_PATH h) \<noteq> Some (File content)
            \<and> disk w (ROOT h) = Some (Dir names)
            \<and> sync_finish h st w
                = (Inr (),
                   w\<lparr>disk := (disk w)(ROOT h \<mapsto> Dir (manifest_listing names),
                                       GO_WORK_PATH h \<mapsto> File content),
                     effects := effects w @ [WriteFile (GO_WORK_PATH h) content],
                     console := console w @ [Log (synced_message (snd st))]\<rparr>))"
proof (cases "snd st = 0")
  case True
  then have "sync_finish h st w = (Inl (Exit 1), w\<lparr>console := console w @ [Err no_modules_message]\<rparr>)"
    by (simp add: sync_finish_def andThen_def console_error_def process_exit_def)
  then show ?thesis by blast
next
  case nz: False
  then have fin: "sync_finish h st w = syncManifest h (fst st) (snd st) w"
    by (simp add: sync_finish_def)
  have w_eq: "w = w\<lparr>console := console w @ []\<rparr>" by simp
  show ?thesis
  proof (cases "is_directory (disk w) (GO_WORK_PATH h)")
    case True
    then obtain names where "disk w (GO_WORK_PATH h) = Some (Dir names)"
      by (auto simp: is_directory_def split: option.splits node.splits)
    then have "sync_finish h st w = (Inl (Uncaught ''EISDIR''), w\<lparr>console := console w @ []\<rparr>)"
      using fin by (simp add: syncManifest_dir)
    then show ?thesis by blast
  next
    case nd: False
    show ?thesis
    proof (cases "disk w (GO_WORK_PATH h) = Some (File content)")
      case True
      then show ?thesis using fin nz by (simp add: syncManifest_same content_def)
    next
      case diff: False
      show ?thesis
      proof (cases "is_directory (disk w) (ROOT h)")
        case True
        then obtain names where names: "disk w (ROOT h) = Some (Dir names)"
          by (auto simp: is_directory_def split: option.splits node.splits)
        show ?thesis
          using syncManifest_write [OF nd diff [unfolded content_def] names, of "snd st"]
            fin nz nd diff names
          by (simp add: content_def)
      next
        case False
        have "sync_finish h st w = (Inl (Uncaught ''ENOENT''), w\<lparr>console := console w @ []\<rparr>)"
          using syncManifest_no_parent [OF nd diff [unfolded content_def] False] fin by simp
        then show ?thesis by blast
      qed
    qed
  qed
qed

lemma discoverAll_steps: "discoverAll h scanDirs = for_each scanDirs (discover_step h) ([], 0)"
  unfolding discoverAll_def discover_step_def by (rule refl)




lemma discover_step_empty:
  assumes "fst (discoverModules h dir w) = Inr []"
  shows "\<exists>out. discover_step h dir state w
           = (Inr (object_set (fst state) dir [], snd state), w\<lparr>console := console w @ out\<rparr>)"
proof -
  obtain out where "discoverModules h dir w = (Inr [], w\<lparr>console := console w @ out\<rparr>)"
    using reader_run [OF reader_discoverModules, of h dir w] assms by auto
  then show ?thesis
    by (auto simp add: discover_step_def andThen_def return_def)
qed

lemma steps_all_empty:
  assumes "\<forall>dir \<in> set dirs. fst (discoverModules h dir w) = Inr []"
  shows "\<exists>obj out. for_each dirs (discover_step h) state w
           = (Inr (obj, snd state), w\<lparr>console := console w @ out\<rparr>)"
  using assms
proof (induction dirs arbitrary: state w)
  case Nil
  have "for_each [] (discover_step h) state w
      = (Inr (fst state, snd state), w\<lparr>console := console w @ []\<rparr>)"
    by (simp add: return_def)
  then show ?case by blast
next
  case (Cons x xs)
  obtain out where step: "discover_step h x state w
      = (Inr (object_set (fst state) x [], snd state), w\<lparr>console := console w @ out\<rparr>)"
    using discover_step_empty [of h x w state] Cons.prems by auto
  let ?w = "w\<lparr>console := console w @ out\<rparr>"
  have "\<forall>dir \<in> set xs. fst (discoverModules h dir ?w) = Inr []"
    using Cons.prems reader_result [OF reader_discoverModules, of ?w w] by simp
  then obtain obj out' where rest:
    "for_each xs (discover_step h) (object_set (fst state) x [], snd state) ?w
       = (Inr (obj, snd state), ?w\<lparr>console := console ?w @ out'\<rparr>)"
    using Cons.IH [of ?w "(object_set (fst state) x [], snd state)"] by auto
  have "for_each (x # xs) (discover_step h) state w
      = (Inr (obj, snd state), w\<lparr>console := console w @ (out @ out')\<rparr>)"
    using step rest by (simp add: andThen_def)
  then show ?case by blast
qed

lemma scan_fst:
  "fst (sync_scan h w)
     = (case fst (getWorkspaceDirs h w) of
          Inl e \<Rightarrow> Inl e
        | Inr dirs \<Rightarrow> fst (discoverAll h dirs w))"
proof -
  let ?w = "w\<lparr>console := console w @ [Log (magnifier_left @ '' Scanning for Go modules...'' @ [nl])]\<rparr>"
  have g: "fst (getWorkspaceDirs h ?w) = fst (getWorkspaceDirs h w)"
    by (rule reader_result [OF reader_getWorkspaceDirs]) simp
  obtain out where run: "getWorkspaceDirs h ?w
      = (fst (getWorkspaceDirs h ?w), ?w\<lparr>console := console ?w @ out\<rparr>)"
    using reader_run [OF reader_getWorkspaceDirs] by blast
  show ?thesis
  proof (cases "fst (getWorkspaceDirs h w)")
    case (Inl e)
    then show ?thesis
      using g run by (simp add: sync_scan_def andThen_def console_log_def split: prod.splits)
  next
    case (Inr dirs)
    have "fst (discoverAll h dirs (?w\<lparr>console := console ?w @ out\<rparr>)) = fst (discoverAll h dirs w)"
      by (rule reader_result [OF reader_discoverAll]) simp
    then show ?thesis
      using g run Inr
      by (simp add: sync_scan_def andThen_def console_log_def split: prod.splits)
  qed
qed
































lemma sync_main_via_scan:
  "\<exists>out. sync_main h w
     = (case fst (sync_scan h w) of
          Inl e \<Rightarrow> (Inl e, w\<lparr>console := console w @ out\<rparr>)
        | Inr st \<Rightarrow> sync_finish h st (w\<lparr>console := console w @ out\<rparr>))"
proof -
  obtain out where "sync_scan h w = (fst (sync_scan h w), w\<lparr>console := console w @ out\<rparr>)"
    using reader_run [OF reader_sync_scan] by blast
  then have "sync_main h w
     = (case fst (sync_scan h w) of
          Inl e \<Rightarrow> (Inl e, w\<lparr>console := console w @ out\<rparr>)
        | Inr st \<Rightarrow> sync_finish h st (w\<lparr>console := console w @ out\<rparr>))"
    by (cases "fst (sync_scan h w)") (auto simp: sync_main_decomp andThen_def split: prod.splits)
  then show ?thesis by blast
qed


lemma finish_write_or_not:
  "(effects (snd (sync_finish h st w)) = effects w \<and> disk (snd (sync_finish h st w)) = disk w)
   \<or> (fst (sync_finish h st w) = Inr () \<and> snd st \<noteq> 0
       \<and> manifest_written h (disk w) (disk (snd (sync_finish h st w)))
       \<and> disk (snd (sync_finish h st w)) (GO_WORK_PATH h) = Some (File (generateGoWork (fst st)))
       \<and> effects (snd (sync_finish h st w))
           = effects w @ [WriteFile (GO_WORK_PATH h) (generateGoWork (fst st))])"
  using sync_finish_outcome [of h st w]
  by (auto simp: manifest_written_def)





lemma sync_halt_no_write:
  assumes "fst (sync_main h w) = Inl e"
  shows "disk (snd (sync_main h w)) = disk w \<and> effects (snd (sync_main h w)) = effects w"
proof -
  obtain out where run1: "sync_main h w
     = (case fst (sync_scan h w) of
          Inl e \<Rightarrow> (Inl e, w\<lparr>console := console w @ out\<rparr>)
        | Inr st \<Rightarrow> sync_finish h st (w\<lparr>console := console w @ out\<rparr>))"
    using sync_main_via_scan by blast
  show ?thesis
  proof (cases "fst (sync_scan h w)")
    case (Inl e)
    then show ?thesis using run1 by simp
  next
    case (Inr st)
    then show ?thesis
      using run1 assms finish_write_or_not [of h st "w\<lparr>console := console w @ out\<rparr>"] by auto
  qed
qed

lemma no_globs_exit:
  assumes "fst (readWorkspaceGlobs h w) = Inr []"
  shows "fst (getWorkspaceDirs h w) = Inl (Exit 1)"
proof -
  obtain out where "readWorkspaceGlobs h w = (Inr [], w\<lparr>console := console w @ out\<rparr>)"
    using reader_run [OF reader_readWorkspaceGlobs, of h w] assms by auto
  then show ?thesis
    by (simp add: getWorkspaceDirs_def andThen_def console_error_def process_exit_def)
qed

lemma sync_exit_no_globs:
  assumes "fst (readWorkspaceGlobs h w) = Inr []"
  shows "fst (sync_main h w) = Inl (Exit 1)"
proof -
  have "fst (sync_scan h w) = Inl (Exit 1)" using no_globs_exit [OF assms] by (simp add: scan_fst)
  then show ?thesis using sync_main_via_scan [of h w] by auto
qed

lemma sync_exit_no_modules:
  assumes dirs: "fst (getWorkspaceDirs h w) = Inr dirs"
    and none: "\<forall>dir \<in> set dirs. fst (discoverModules h dir w) = Inr []"
  shows "fst (sync_main h w) = Inl (Exit 1)"
proof -
  obtain obj out where "for_each dirs (discover_step h) ([], 0) w
           = (Inr (obj, 0), w\<lparr>console := console w @ out\<rparr>)"
    using steps_all_empty [OF none, of "([], 0)"] by auto
  then have "fst (sync_scan h w) = Inr (obj, 0)"
    using dirs by (simp add: scan_fst discoverAll_steps)
  moreover have "fst (sync_finish h (obj, 0) w') = Inl (Exit 1)" for w'
    by (simp add: sync_finish_def andThen_def console_error_def process_exit_def)
  ultimately show ?thesis using sync_main_via_scan [of h w] by auto
qed

section \<open>The example workspace, evaluated\<close>

lemma demo_ROOT: "ROOT demo_host = [''repo'']"
  by (simp add: ROOT_def demo_host_def path_join_def split_on_def)


lemma demo_jsonParse_host: "jsonParse demo_host = demo_jsonParse"
  by (simp add: demo_host_def)

lemma demo_root_join: "path_join [''repo''] [x] = normalize_from [''repo''] (split_on CHR ''/'' x)"
  by (simp add: path_join_def)

lemma demo_parse: "demo_jsonParse demo_package_json
    = Some \<lparr>packageManager = None, workspaces = Some (WorkspacesArray [''apps/*'', ''packages/*''])\<rparr>"
  by (simp add: demo_jsonParse_def)

lemma demo_resolve: "resolveWorkspaceGlobs [''apps/*'', ''packages/*''] = [''apps'', ''packages'']"
  by (simp add: resolveWorkspaceGlobs_def baseDir_of_def replace_star_suffix_def
      replace_stars_suffix_def endsWith_def Let_def)

lemma demo_globs:
  assumes "disk w [''repo'', ''package.json''] = Some (File demo_package_json)"
    and "disk w [''repo'', ''pnpm-lock.yaml''] = None"
    and "disk w [''repo'', ''yarn.lock''] = None"
    and "disk w [''repo'', ''package-lock.json''] = None"
  shows "fst (readWorkspaceGlobs demo_host w) = Inr [''apps/*'', ''packages/*'']"
  using assms
  by (simp add: readWorkspaceGlobs_def detectPackageManager_def readPackageJsonWorkspaces_def
      demo_ROOT path_join_def split_on_def demo_jsonParse_host demo_parse
      andThen_def existsSync_def readFileSync_def JSON_parse_def return_def console_log_def
      Let_def)

lemma demo_dirs_of_globs:
  assumes "fst (readWorkspaceGlobs demo_host w) = Inr [''apps/*'', ''packages/*'']"
  shows "fst (getWorkspaceDirs demo_host w) = Inr [''apps'', ''packages'']"
proof -
  obtain out where "readWorkspaceGlobs demo_host w
      = (Inr [''apps/*'', ''packages/*''], w\<lparr>console := console w @ out\<rparr>)"
    using reader_run [OF reader_readWorkspaceGlobs, of demo_host w] assms by auto
  then show ?thesis
    by (simp add: getWorkspaceDirs_def andThen_def demo_resolve console_log_def return_def Let_def)
qed




lemma demo_tools:
  "discoverModules demo_host ''tools'' demo_world
     = (Inr [], demo_world\<lparr>console := [Warn (directory_not_found_message ''tools'')]\<rparr>)"
proof -
  have "disk demo_world (path_join (ROOT demo_host) [''tools'']) = None"
    by (simp add: demo_ROOT path_join_def split_on_def demo_world_def demo_disk_def)
  from discoverModules_missing [OF this] show ?thesis by (simp add: demo_world_def)
qed

lemma fst_discoverModules_console:
  "fst (discoverModules h dir (w\<lparr>console := c\<rparr>)) = fst (discoverModules h dir w)"
  by (rule reader_result [OF reader_discoverModules]) simp




lemma bare_globs: "disk w = disk bare_world \<Longrightarrow> fst (readWorkspaceGlobs demo_host w) = Inr []"
  by (simp add: readWorkspaceGlobs_def detectPackageManager_def readPackageJsonWorkspaces_def
      demo_ROOT path_join_def split_on_def bare_world_def
      andThen_def existsSync_def return_def console_log_def Let_def)

lemma unpopulated_dirs:
  "fst (getWorkspaceDirs demo_host unpopulated_world) = Inr [''apps'', ''packages'']"
  by (rule demo_dirs_of_globs, rule demo_globs) (simp_all add: unpopulated_world_def)

lemma unpopulated_apps: "fst (discoverModules demo_host ''apps'' unpopulated_world) = Inr []"
proof -
  have "disk unpopulated_world (path_join (ROOT demo_host) [''apps'']) = Some (Dir [''tmp''])"
    by (simp add: demo_ROOT path_join_def split_on_def unpopulated_world_def)
  from discoverModules_dir [OF this] show ?thesis
    by (simp add: demo_ROOT path_join_def split_on_def unpopulated_world_def is_directory_def)
qed

lemma unpopulated_packages:
  "fst (discoverModules demo_host ''packages'' unpopulated_world) = Inr []"
proof -
  have "disk unpopulated_world (path_join (ROOT demo_host) [''packages'']) = None"
    by (simp add: demo_ROOT path_join_def split_on_def unpopulated_world_def)
  from discoverModules_missing [OF this] show ?thesis by simp
qed









section \<open>Facts about the Glob Resolver and the generator\<close>

lemma endsWith_append: "endsWith (b @ s) s"
  by (simp add: endsWith_def)

lemma baseDir_of_spec:
  "baseDir_of glob = replace_star_suffix (spec_strip_once glob)"
  by (simp add: baseDir_of_def replace_stars_suffix_def replace_star_suffix_def spec_strip_once_def)

lemma baseDir_star_star: "baseDir_of (b @ ''/*/*'') = b"
  by (simp add: baseDir_of_def replace_stars_suffix_def replace_star_suffix_def endsWith_def)

lemma baseDir_star_stars: "baseDir_of (b @ ''/*/**'') = b"
  by (simp add: baseDir_of_def replace_stars_suffix_def replace_star_suffix_def endsWith_def)

lemma baseDir_stars_star: "baseDir_of (b @ ''/**/*'') = b @ ''/**''"
  by (simp add: baseDir_of_def replace_stars_suffix_def replace_star_suffix_def endsWith_def)

lemma baseDir_three_stars: "baseDir_of (b @ ''/*/*/*'') = b @ ''/*''"
  by (simp add: baseDir_of_def replace_stars_suffix_def replace_star_suffix_def endsWith_def)

section \<open>Facts about the scaffolding scripts\<close>

lemma exit_after_errors:
  "andThen (console_error a) (\<lambda>_. process_exit 1) w
     = (Inl (Exit 1), w\<lparr>console := console w @ [Err a]\<rparr>)"
  by (simp add: andThen_def console_error_def process_exit_def)

lemma make_app_accepts:
  "at_index argv 2 = Some name \<Longrightarrow> name_pattern name \<Longrightarrow>
   make_app_main h argv = make_app_scaffold h argv name"
  by (cases name) (auto simp: make_app_main_def name_pattern_def startsWith_def is_lower_def)

lemma make_package_accepts:
  "at_index argv 2 = Some name \<Longrightarrow> name_pattern name \<Longrightarrow>
   make_package_main h argv = make_package_scaffold h name"
  by (cases name) (auto simp: make_package_main_def name_pattern_def startsWith_def is_lower_def)

lemma make_app_rejects:
  assumes "at_index argv 2 = None \<or> (at_index argv 2 = Some name \<and> \<not> name_pattern name)"
  shows "fst (make_app_main h argv w) = Inl (Exit 1)
       \<and> disk (snd (make_app_main h argv w)) = disk w
       \<and> effects (snd (make_app_main h argv w)) = effects w"
  using assms
  by (auto simp: make_app_main_def andThen_def console_error_def process_exit_def)

lemma make_package_rejects:
  assumes "at_index argv 2 = None \<or> (at_index argv 2 = Some name \<and> \<not> name_pattern name)"
  shows "fst (make_package_main h argv w) = Inl (Exit 1)
       \<and> disk (snd (make_package_main h argv w)) = disk w
       \<and> effects (snd (make_package_main h argv w)) = effects w"
  using assms
  by (auto simp: make_package_main_def andThen_def console_error_def process_exit_def)

lemma lower_not_upper: "is_lower c \<Longrightarrow> \<not> is_upper c"
  by (auto simp: is_lower_def is_upper_def less_eq_char_def)

lemma digit_not_upper: "is_digit c \<Longrightarrow> \<not> is_upper c"
  by (auto simp: is_digit_def is_upper_def less_eq_char_def)

lemma lower_not_digit: "is_lower c \<Longrightarrow> \<not> is_digit c"
  by (auto simp: is_lower_def is_digit_def less_eq_char_def)

lemma name_pattern_chars:
  assumes "name_pattern name" and "x \<in> set name"
  shows "is_lower x \<or> is_digit x \<or> x = CHR ''-''"
proof (cases name)
  case Nil
  then show ?thesis using assms by simp
next
  case (Cons c cs)
  then show ?thesis using assms by (auto simp: name_pattern_def list_all_iff)
qed

lemma name_pattern_rejects:
  assumes "name = [] \<or> startsWith name ''--'' \<or> is_digit (hd name) \<or> hd name = CHR ''-''
           \<or> (\<exists>x \<in> set name. is_upper x \<or> x = CHR ''_'')"
  shows "\<not> name_pattern name"
proof
  assume np: "name_pattern name"
  then obtain c cs where name: "name = c # cs" and c: "is_lower c"
    by (cases name) (auto simp: name_pattern_def)
  have "\<not> is_digit c" "c \<noteq> CHR ''-''" using c lower_not_digit by (auto simp: is_lower_def)
  moreover have "\<not> startsWith name ''--''"
    using name c by (auto simp: startsWith_def is_lower_def)
  moreover have "\<not> (is_upper x \<or> x = CHR ''_'')" if "x \<in> set name" for x
    using name_pattern_chars [OF np that] lower_not_upper [of x] digit_not_upper [of x]
    by (auto simp: is_upper_def is_lower_def is_digit_def)
  ultimately show False using assms name by auto
qed

lemma app_collision:
  assumes "at_index argv 2 = Some name" and "disk w (path_join (APPS_DIR h) [name]) \<noteq> None"
  shows "fst (make_app_main h argv w) = Inl (Exit 1)
       \<and> disk (snd (make_app_main h argv w)) = disk w
       \<and> effects (snd (make_app_main h argv w)) = effects w
       \<and> (name_pattern name \<longrightarrow>
            console (snd (make_app_main h argv w)) = console w @ [Err (app_exists_message name)])"
proof (cases "name_pattern name")
  case True
  have "make_app_scaffold h argv name w
          = (Inl (Exit 1), w\<lparr>console := console w @ [Err (app_exists_message name)]\<rparr>)"
    using assms(2)
    by (simp add: make_app_scaffold_def Let_def andThen_def existsSync_def console_error_def
        process_exit_def)
  then show ?thesis using make_app_accepts [OF assms(1) True, of h] by simp
next
  case False
  then show ?thesis using make_app_rejects [of argv name h w] assms(1) by simp
qed

lemma package_collision:
  assumes "at_index argv 2 = Some name" and "disk w (path_join (PACKAGES_DIR h) [name]) \<noteq> None"
  shows "fst (make_package_main h argv w) = Inl (Exit 1)
       \<and> disk (snd (make_package_main h argv w)) = disk w
       \<and> effects (snd (make_package_main h argv w)) = effects w
       \<and> (name_pattern name \<longrightarrow>
            console (snd (make_package_main h argv w))
              = console w @ [Err (package_exists_message name)])"
proof (cases "name_pattern name")
  case True
  have "make_package_scaffold h name w
          = (Inl (Exit 1), w\<lparr>console := console w @ [Err (package_exists_message name)]\<rparr>)"
    using assms(2)
    by (simp add: make_package_scaffold_def Let_def andThen_def existsSync_def console_error_def
        process_exit_def)
  then show ?thesis using make_package_accepts [OF assms(1) True, of h] by simp
next
  case False
  then show ?thesis using make_package_rejects [of argv name h w] assms(1) by simp
qed

lemma scaffold_dirs:
  "APPS_DIR scaffold_host = [''repo'', ''apps'']"
  "PACKAGES_DIR scaffold_host = [''repo'', ''packages'']"
  by (simp_all add: APPS_DIR_def PACKAGES_DIR_def scaffold_ROOT_def scaffold_host_def
      demo_host_def path_join_def split_on_def)

section \<open>Facts about the deploy script\<close>

lemma selectFile_selected:
  "for_each candidates
     (\<lambda>file selectedFile.
         case selectedFile of
           Some p \<Rightarrow> return selectedFile
         | None \<Rightarrow>
             andThen (existsSync (path_join dockerDir [file])) (\<lambda>found.
             return (if found then Some (path_join dockerDir [file]) else None)))
     (Some p) w
   = (Inr (Some p), w)"
  by (induction candidates) (simp_all add: return_def andThen_def)

lemma selectFile_find:
  "selectFile dockerDir candidates w
     = (Inr (map_option (\<lambda>file. path_join dockerDir [file])
               (find (\<lambda>file. disk w (path_join dockerDir [file]) \<noteq> None) candidates)), w)"
  unfolding selectFile_def
  by (induction candidates)
     (simp_all add: return_def andThen_def existsSync_def selectFile_selected)

lemma deploy_main_not_found:
  assumes "at_index argv 2 = Some serviceName" and "serviceName \<noteq> []"
    and "disk w (path_join (ROOT h) [''apps'', serviceName]) \<noteq> None"
    and "find (\<lambda>file. disk w (path_join (path_join (path_join (ROOT h) [''apps'', serviceName])
                                   [''docker'']) [file]) \<noteq> None)
           (candidates_of (deployEnv_of argv DEPLOY_ENV)) = None"
  shows "deploy_main h argv DEPLOY_ENV w
     = (Inl (Exit 1),
        w\<lparr>console := console w
             @ [Err (compose_not_found_message serviceName),
                Err (checked_message (candidates_of (deployEnv_of argv DEPLOY_ENV)))]\<rparr>)"
proof -
  obtain c cs where "serviceName = c # cs" using assms(2) by (cases serviceName) auto
  then show ?thesis
    using assms
    by (simp add: deploy_main_def Let_def andThen_def existsSync_def selectFile_find
        console_error_def process_exit_def)
qed



lemma candidates_no_tag:
  "candidates_of None = [''compose.yaml'', ''compose.yml'']"
  "candidates_of (Some []) = [''compose.yaml'', ''compose.yml'']"
  by (simp_all add: candidates_of_def)

lemma deployEnv_flag: "''--env'' \<in> set argv \<Longrightarrow> deployEnv_of argv e1 = deployEnv_of argv e2"
proof -
  assume "''--env'' \<in> set argv"
  then have "indexOf argv ''--env'' \<noteq> None" by (induction argv) auto
  then show ?thesis by (auto simp: deployEnv_of_def)
qed

lemma deployEnv_no_flag: "''--env'' \<notin> set argv \<Longrightarrow> deployEnv_of argv e = e"
  by (simp add: deployEnv_of_def indexOf_None)

lemma deployEnv_flag_last: "''--env'' \<notin> set pre \<Longrightarrow> deployEnv_of (pre @ [''--env'']) e = None"
  using indexOf_first [of "''--env''" pre "[]"] by (simp add: deployEnv_of_def at_index_def)

lemma deployEnv_flag_value:
  "''--env'' \<notin> set pre \<Longrightarrow> deployEnv_of (pre @ ''--env'' # tag # post) e = Some tag"
  using indexOf_first [of "''--env''" pre "tag # post"]
  by (simp add: deployEnv_of_def at_index_def nth_append)

lemma deploy_main_env:
  "deployEnv_of argv e1 = deployEnv_of argv e2 \<Longrightarrow> deploy_main h argv e1 = deploy_main h argv e2"
  by (simp add: deploy_main_def)



section \<open>Claims\<close>




text \<open>
  C2. Glob Resolver. As stated, the claim says that one trailing wildcard segment is
  stripped and never a second: for \<^verbatim>\<open>apps/*/*\<close> the scan root would be \<^verbatim>\<open>apps/*\<close>.
  The code chains two \<^verbatim>\<open>replace\<close> calls and resolves it to \<^verbatim>\<open>apps\<close>.
\<close>

theorem baseDir_of_counterexample:
  "spec_strip_once ''apps/*/*'' = ''apps/*''
   \<and> baseDir_of ''apps/*/*'' = ''apps''
   \<and> resolveWorkspaceGlobs [''apps/*/*''] = [''apps'']"
  by (simp add: spec_strip_once_def baseDir_of_def replace_stars_suffix_def
      replace_star_suffix_def endsWith_def resolveWorkspaceGlobs_def)

text \<open>
  C2, amended. The scan root of a glob is what remains after removing one trailing
  \<^verbatim>\<open>/**\<close> or \<^verbatim>\<open>/*\<close> and then, when the remainder still ends in \<^verbatim>\<open>/*\<close>, that \<^verbatim>\<open>/*\<close> as
  well. So a glob ending in \<^verbatim>\<open>/*/*\<close> or \<^verbatim>\<open>/*/**\<close> loses both segments, the second pass
  never removes a \<^verbatim>\<open>/**\<close>, and nothing is removed beyond the second segment.
\<close>

theorem baseDir_of_two_passes:
  "baseDir_of glob
     = (if endsWith (spec_strip_once glob) ''/*''
        then take (length (spec_strip_once glob) - 2) (spec_strip_once glob)
        else spec_strip_once glob)
   \<and> baseDir_of (b @ ''/*/*'') = b
   \<and> baseDir_of (b @ ''/*/**'') = b
   \<and> baseDir_of (b @ ''/**/*'') = b @ ''/**''
   \<and> baseDir_of (b @ ''/*/*/*'') = b @ ''/*''"
  using baseDir_of_spec [of glob] baseDir_star_star [of b] baseDir_star_stars [of b]
    baseDir_stars_star [of b] baseDir_three_stars [of b]
  by (simp add: replace_star_suffix_def)

text \<open>
  C3. Manifest sections. The claim: roots without modules are skipped, one blank line
  separates two emitted sections, and no blank line stands between the last emitted
  section and the closing \<open>)\<close>, also when the last roots have no modules. The code emits
  the blank line after a section whenever the section's root is not the last entry, so a
  trailing root without modules leaves a blank line before \<open>)\<close>.
\<close>

theorem generateGoWork_trailing_blank:
  "generateGoWork [(''apps'', [''./apps/gateway'']), (''packages'', [])]
     = join [nl]
         [''// Auto-generated by scripts/go-workspace-sync.ts'',
          ''// Do NOT edit manually '' @ em_dash @ '' run: pnpm workspace:sync'',
          ''//'',
          ''// This file allows Go to recognize multiple modules within the repository'',
          ''// without needing manual 'replace' directives in each go.mod file.'',
          ''go 1.23'',
          '''',
          ''use ('',
          [tab] @ ''// Apps'',
          [tab] @ ''./apps/gateway'',
          '''',
          '')'',
          '''']"
  by (simp add: generateGoWork_def object_entries_def is_array_index_def is_digit_def
      to_upper_def GO_VERSION_def Let_def)



text \<open>
  C5. Collision. When the target directory of the requested name exists, both scripts
  end with exit code 1 and leave the disk untouched: no directory is created, no file is
  written and no command is run. For a valid name the one message printed is that the
  unit already exists.
\<close>

theorem scaffold_collision:
  "(at_index argv 2 = Some name \<and> disk w (path_join (APPS_DIR h) [name]) \<noteq> None \<longrightarrow>
      fst (make_app_main h argv w) = Inl (Exit 1)
      \<and> disk (snd (make_app_main h argv w)) = disk w
      \<and> effects (snd (make_app_main h argv w)) = effects w
      \<and> (name_pattern name \<longrightarrow>
           console (snd (make_app_main h argv w)) = console w @ [Err (app_exists_message name)]))
   \<and> (at_index argv' 2 = Some name' \<and> disk w' (path_join (PACKAGES_DIR h) [name']) \<noteq> None \<longrightarrow>
        fst (make_package_main h argv' w') = Inl (Exit 1)
        \<and> disk (snd (make_package_main h argv' w')) = disk w'
        \<and> effects (snd (make_package_main h argv' w')) = effects w'
        \<and> (name_pattern name' \<longrightarrow>
             console (snd (make_package_main h argv' w'))
               = console w' @ [Err (package_exists_message name')]))"
  using app_collision [of argv name w h] package_collision [of argv' name' w' h]
  by blast

theorem scaffold_collision_witness:
  "at_index [''node'', ''make-app.ts'', ''gateway'', ''--deps'', ''logger''] 2 = Some ''gateway''
   \<and> disk demo_world (path_join (APPS_DIR scaffold_host) [''gateway'']) \<noteq> None
   \<and> name_pattern ''gateway''
   \<and> make_app_main scaffold_host [''node'', ''make-app.ts'', ''gateway'', ''--deps'', ''logger'']
        demo_world
       = (Inl (Exit 1), demo_world\<lparr>console := [Err (app_exists_message ''gateway'')]\<rparr>)
   \<and> at_index [''node'', ''make-package.ts'', ''logger''] 2 = Some ''logger''
   \<and> disk demo_world (path_join (PACKAGES_DIR scaffold_host) [''logger'']) \<noteq> None
   \<and> name_pattern ''logger''
   \<and> make_package_main scaffold_host [''node'', ''make-package.ts'', ''logger''] demo_world
       = (Inl (Exit 1), demo_world\<lparr>console := [Err (package_exists_message ''logger'')]\<rparr>)"
proof -
  let ?argv = "[''node'', ''make-app.ts'', ''gateway'', ''--deps'', ''logger'']"
  let ?argv' = "[''node'', ''make-package.ts'', ''logger'']"
  have a: "at_index ?argv 2 = Some ''gateway''" and a': "at_index ?argv' 2 = Some ''logger''"
    by (simp_all add: at_index_def)
  have d: "disk demo_world (path_join (APPS_DIR scaffold_host) [''gateway'']) \<noteq> None"
    and d': "disk demo_world (path_join (PACKAGES_DIR scaffold_host) [''logger'']) \<noteq> None"
    by (simp_all add: scaffold_dirs path_join_def split_on_def demo_world_def demo_disk_def)
  have n: "name_pattern ''gateway''" and n': "name_pattern ''logger''"
    by (simp_all add: name_pattern_def is_lower_def is_digit_def)
  note th = scaffold_collision [of ?argv "''gateway''" demo_world scaffold_host
      ?argv' "''logger''" demo_world]
  have 1: "fst (make_app_main scaffold_host ?argv demo_world) = Inl (Exit 1)
      \<and> disk (snd (make_app_main scaffold_host ?argv demo_world)) = disk demo_world
      \<and> effects (snd (make_app_main scaffold_host ?argv demo_world)) = effects demo_world
      \<and> console (snd (make_app_main scaffold_host ?argv demo_world))
          = console demo_world @ [Err (app_exists_message ''gateway'')]"
    using th [THEN conjunct1] a d n by blast
  have 2: "fst (make_package_main scaffold_host ?argv' demo_world) = Inl (Exit 1)
      \<and> disk (snd (make_package_main scaffold_host ?argv' demo_world)) = disk demo_world
      \<and> effects (snd (make_package_main scaffold_host ?argv' demo_world)) = effects demo_world
      \<and> console (snd (make_package_main scaffold_host ?argv' demo_world))
          = console demo_world @ [Err (package_exists_message ''logger'')]"
    using th [THEN conjunct2] a' d' n' by blast
  have eq: "r = (Inl (Exit 1), demo_world\<lparr>console := [Err m]\<rparr>)"
    if "fst r = Inl (Exit 1) \<and> disk (snd r) = disk demo_world
        \<and> effects (snd r) = effects demo_world \<and> console (snd r) = console demo_world @ [Err m]"
    for r :: "(halt + unit) \<times> world" and m
    using that by (cases r) (auto simp: demo_world_def)
  from a d n eq [OF 1] a' d' n' eq [OF 2] show ?thesis by (intro conjI)
qed

text \<open>
  C6. Fail fast on an empty configuration. When the workspace configuration yields no
  glob, and when it yields scan roots but every one of them discovers no module (so the
  total is zero), \<^verbatim>\<open>sync\<close> ends with exit code 1, and the disk, the manifest included, is
  as before: nothing was written.
\<close>

theorem sync_fail_fast:
  "(fst (readWorkspaceGlobs h w) = Inr [] \<longrightarrow>
      fst (sync_main h w) = Inl (Exit 1)
      \<and> disk (snd (sync_main h w)) = disk w \<and> effects (snd (sync_main h w)) = effects w)
   \<and> (fst (getWorkspaceDirs h w') = Inr scanDirs
        \<and> (\<forall>dir \<in> set scanDirs. fst (discoverModules h dir w') = Inr []) \<longrightarrow>
      fst (sync_main h w') = Inl (Exit 1)
      \<and> disk (snd (sync_main h w')) = disk w' \<and> effects (snd (sync_main h w')) = effects w')"
  using sync_exit_no_globs [of h w] sync_exit_no_modules [of h w' scanDirs]
    sync_halt_no_write [of h w "Exit 1"] sync_halt_no_write [of h w' "Exit 1"]
  by blast

theorem sync_fail_fast_witness:
  "fst (readWorkspaceGlobs demo_host bare_world) = Inr []
   \<and> fst (sync_main demo_host bare_world) = Inl (Exit 1)
   \<and> disk (snd (sync_main demo_host bare_world)) = disk bare_world
   \<and> effects (snd (sync_main demo_host bare_world)) = effects bare_world
   \<and> fst (getWorkspaceDirs demo_host unpopulated_world) = Inr [''apps'', ''packages'']
   \<and> fst (discoverModules demo_host ''apps'' unpopulated_world) = Inr []
   \<and> fst (discoverModules demo_host ''packages'' unpopulated_world) = Inr []
   \<and> fst (sync_main demo_host unpopulated_world) = Inl (Exit 1)
   \<and> disk (snd (sync_main demo_host unpopulated_world)) = disk unpopulated_world
   \<and> effects (snd (sync_main demo_host unpopulated_world)) = effects unpopulated_world"
proof -
  have g: "fst (readWorkspaceGlobs demo_host bare_world) = Inr []"
    by (rule bare_globs) simp
  note th = sync_fail_fast [of demo_host bare_world unpopulated_world "[''apps'', ''packages'']"]
  have 1: "fst (sync_main demo_host bare_world) = Inl (Exit 1)
      \<and> disk (snd (sync_main demo_host bare_world)) = disk bare_world
      \<and> effects (snd (sync_main demo_host bare_world)) = effects bare_world"
    using th [THEN conjunct1] g by (rule mp)
  have 2: "fst (sync_main demo_host unpopulated_world) = Inl (Exit 1)
      \<and> disk (snd (sync_main demo_host unpopulated_world)) = disk unpopulated_world
      \<and> effects (snd (sync_main demo_host unpopulated_world)) = effects unpopulated_world"
    using th [THEN conjunct2] unpopulated_dirs unpopulated_apps unpopulated_packages by simp
  from g 1 unpopulated_dirs unpopulated_apps unpopulated_packages 2 show ?thesis by simp
qed





text \<open>
  C9. Name validation. A name that matches the pattern (a lowercase letter, then
  lowercase letters, digits or hyphens) passes validation: both scripts go on to the
  collision check. An absent name and every name that does not match, so every name that
  is empty, starts with \<open>--\<close>, a digit or a hyphen, or contains an uppercase letter or an
  underscore, ends the script with exit code 1 and an unchanged disk.
\<close>

theorem name_validation:
  "(at_index argv 2 = Some name \<and> name_pattern name \<longrightarrow>
      make_app_main h argv = make_app_scaffold h argv name
      \<and> make_package_main h argv = make_package_scaffold h name)
   \<and> (at_index argv' 2 = None \<or> (at_index argv' 2 = Some name' \<and> \<not> name_pattern name') \<longrightarrow>
        fst (make_app_main h argv' w) = Inl (Exit 1)
        \<and> disk (snd (make_app_main h argv' w)) = disk w
        \<and> effects (snd (make_app_main h argv' w)) = effects w
        \<and> fst (make_package_main h argv' w) = Inl (Exit 1)
        \<and> disk (snd (make_package_main h argv' w)) = disk w
        \<and> effects (snd (make_package_main h argv' w)) = effects w)
   \<and> (n = [] \<or> startsWith n ''--'' \<or> is_digit (hd n) \<or> hd n = CHR ''-''
        \<or> (\<exists>x \<in> set n. is_upper x \<or> x = CHR ''_'') \<longrightarrow> \<not> name_pattern n)
   \<and> (name_pattern n \<longleftrightarrow>
        n \<noteq> [] \<and> is_lower (hd n) \<and> (\<forall>x \<in> set (tl n). is_lower x \<or> is_digit x \<or> x = CHR ''-''))"
proof -
  have 4: "name_pattern n \<longleftrightarrow>
        n \<noteq> [] \<and> is_lower (hd n) \<and> (\<forall>x \<in> set (tl n). is_lower x \<or> is_digit x \<or> x = CHR ''-'')"
    by (cases n) (auto simp: name_pattern_def list_all_iff)
  show ?thesis
    using make_app_accepts [of argv name h] make_package_accepts [of argv name h]
      make_app_rejects [of argv' name' h w] make_package_rejects [of argv' name' h w]
      name_pattern_rejects [of n] 4
    by blast
qed

theorem name_validation_witness:
  "at_index [''node'', ''make-app.ts'', ''my-app''] 2 = Some ''my-app''
   \<and> name_pattern ''my-app'' \<and> name_pattern ''auth123'' \<and> name_pattern ''gateway''
   \<and> make_app_main scaffold_host [''node'', ''make-app.ts'', ''my-app'']
       = make_app_scaffold scaffold_host [''node'', ''make-app.ts'', ''my-app''] ''my-app''
   \<and> at_index [''node'', ''make-app.ts'', ''My-App''] 2 = Some ''My-App''
   \<and> \<not> name_pattern ''My-App''
   \<and> fst (make_app_main scaffold_host [''node'', ''make-app.ts'', ''My-App''] demo_world)
       = Inl (Exit 1)
   \<and> effects (snd (make_app_main scaffold_host [''node'', ''make-app.ts'', ''My-App''] demo_world))
       = []
   \<and> CHR ''_'' \<in> set ''app_name'' \<and> \<not> name_pattern ''app_name''
   \<and> \<not> name_pattern ''123app'' \<and> \<not> name_pattern ''-app''"
proof -
  have a: "at_index [''node'', ''make-app.ts'', ''my-app''] 2 = Some ''my-app''"
    and b: "at_index [''node'', ''make-app.ts'', ''My-App''] 2 = Some ''My-App''"
    by (simp_all add: at_index_def)
  have ok: "name_pattern ''my-app''" "name_pattern ''auth123''" "name_pattern ''gateway''"
    by (simp_all add: name_pattern_def is_lower_def is_digit_def)
  have bad: "\<not> name_pattern ''My-App''" "\<not> name_pattern ''123app''" "\<not> name_pattern ''-app''"
    by (simp_all add: name_pattern_def is_lower_def is_digit_def)
  note th = name_validation [of "[''node'', ''make-app.ts'', ''my-app'']" "''my-app''" scaffold_host
      "[''node'', ''make-app.ts'', ''My-App'']" "''My-App''" demo_world "''app_name''"]
  have 1: "make_app_main scaffold_host [''node'', ''make-app.ts'', ''my-app'']
       = make_app_scaffold scaffold_host [''node'', ''make-app.ts'', ''my-app''] ''my-app''"
    using th [THEN conjunct1] a ok(1) by blast
  have 2: "fst (make_app_main scaffold_host [''node'', ''make-app.ts'', ''My-App''] demo_world)
       = Inl (Exit 1)
     \<and> effects (snd (make_app_main scaffold_host [''node'', ''make-app.ts'', ''My-App''] demo_world))
       = effects demo_world"
    using th [THEN conjunct2, THEN conjunct1] b bad(1) by blast
  have u: "CHR ''_'' \<in> set ''app_name''" by simp
  then have 3: "\<not> name_pattern ''app_name''"
    using th [THEN conjunct2, THEN conjunct2, THEN conjunct1] by blast
  from a ok 1 b bad 2 u 3 show ?thesis by (simp add: demo_world_def)
qed

text \<open>
  C10. Environment tag. The variable \<^verbatim>\<open>DEPLOY_ENV\<close> is used only when the arguments hold
  no \<^verbatim>\<open>--env\<close>: with \<^verbatim>\<open>--env\<close> among the arguments the run does not depend on the
  variable. When \<^verbatim>\<open>--env\<close> is the last argument the tag is undefined whatever the variable
  holds, the candidates are \<^verbatim>\<open>compose.yaml\<close> and \<^verbatim>\<open>compose.yml\<close> only, and a unit with
  neither file fails with exactly these two names listed.
\<close>

theorem deployEnv_precedence:
  "(''--env'' \<in> set argv \<longrightarrow>
      deployEnv_of argv e1 = deployEnv_of argv e2 \<and> deploy_main h argv e1 = deploy_main h argv e2)
   \<and> (''--env'' \<notin> set argv' \<longrightarrow> deployEnv_of argv' e = e)
   \<and> (''--env'' \<notin> set pre \<longrightarrow>
        deployEnv_of (pre @ [''--env'']) e = None
        \<and> candidates_of (deployEnv_of (pre @ [''--env'']) e) = [''compose.yaml'', ''compose.yml'']
        \<and> deploy_main h (pre @ [''--env'']) e = deploy_main h (pre @ [''--env'']) None)
   \<and> (''--env'' \<notin> set pre \<and> at_index (pre @ [''--env'']) 2 = Some serviceName
        \<and> serviceName \<noteq> []
        \<and> disk w (path_join (ROOT h) [''apps'', serviceName]) \<noteq> None
        \<and> disk w (path_join (path_join (path_join (ROOT h) [''apps'', serviceName]) [''docker''])
                     [''compose.yaml'']) = None
        \<and> disk w (path_join (path_join (path_join (ROOT h) [''apps'', serviceName]) [''docker''])
                     [''compose.yml'']) = None \<longrightarrow>
        deploy_main h (pre @ [''--env'']) e w
          = (Inl (Exit 1),
             w\<lparr>console := console w
                  @ [Err (compose_not_found_message serviceName),
                     Err (checked_message [''compose.yaml'', ''compose.yml''])]\<rparr>))"
proof -
  have 1: "''--env'' \<in> set argv \<longrightarrow>
      deployEnv_of argv e1 = deployEnv_of argv e2 \<and> deploy_main h argv e1 = deploy_main h argv e2"
    using deployEnv_flag [of argv e1 e2] deploy_main_env [of argv e1 e2 h] by blast
  have 2: "''--env'' \<notin> set argv' \<longrightarrow> deployEnv_of argv' e = e"
    using deployEnv_no_flag by blast
  have 3: "''--env'' \<notin> set pre \<longrightarrow>
        deployEnv_of (pre @ [''--env'']) e = None
        \<and> candidates_of (deployEnv_of (pre @ [''--env'']) e) = [''compose.yaml'', ''compose.yml'']
        \<and> deploy_main h (pre @ [''--env'']) e = deploy_main h (pre @ [''--env'']) None"
    using deployEnv_flag_last [of pre e] deployEnv_flag_last [of pre None]
      deploy_main_env [of "pre @ [''--env'']" e None h]
    by (simp add: candidates_no_tag)
  have 4: "''--env'' \<notin> set pre \<and> at_index (pre @ [''--env'']) 2 = Some serviceName
        \<and> serviceName \<noteq> []
        \<and> disk w (path_join (ROOT h) [''apps'', serviceName]) \<noteq> None
        \<and> disk w (path_join (path_join (path_join (ROOT h) [''apps'', serviceName]) [''docker''])
                     [''compose.yaml'']) = None
        \<and> disk w (path_join (path_join (path_join (ROOT h) [''apps'', serviceName]) [''docker''])
                     [''compose.yml'']) = None \<longrightarrow>
        deploy_main h (pre @ [''--env'']) e w
          = (Inl (Exit 1),
             w\<lparr>console := console w
                  @ [Err (compose_not_found_message serviceName),
                     Err (checked_message [''compose.yaml'', ''compose.yml''])]\<rparr>)"
    using deploy_main_not_found [of "pre @ [''--env'']" serviceName w h e]
      deployEnv_flag_last [of pre e]
    by (simp add: candidates_no_tag)
  from 1 2 3 4 show ?thesis by blast
qed

theorem deployEnv_precedence_witness:
  "''--env'' \<in> set [''node'', ''deploy-service.ts'', ''gateway'', ''--env'', ''staging'']
   \<and> deployEnv_of [''node'', ''deploy-service.ts'', ''gateway'', ''--env'', ''staging'']
        (Some ''production'') = Some ''staging''
   \<and> ''--env'' \<notin> set [''node'', ''deploy-service.ts'', ''gateway'']
   \<and> deployEnv_of [''node'', ''deploy-service.ts'', ''gateway''] (Some ''production'')
       = Some ''production''
   \<and> ''--env'' \<notin> set [''node'', ''deploy-service.ts'', ''auth'']
   \<and> at_index ([''node'', ''deploy-service.ts'', ''auth''] @ [''--env'']) 2 = Some ''auth''
   \<and> disk demo_world (path_join (ROOT demo_host) [''apps'', ''auth'']) \<noteq> None
   \<and> deployEnv_of ([''node'', ''deploy-service.ts'', ''auth''] @ [''--env''])
        (Some ''production'') = None
   \<and> deploy_main demo_host ([''node'', ''deploy-service.ts'', ''auth''] @ [''--env''])
        (Some ''production'') demo_world
       = (Inl (Exit 1),
          demo_world\<lparr>console := [Err (compose_not_found_message ''auth''),
                                   Err (checked_message [''compose.yaml'', ''compose.yml''])]\<rparr>)"
proof -
  let ?a1 = "[''node'', ''deploy-service.ts'', ''gateway'', ''--env'', ''staging'']"
  let ?a2 = "[''node'', ''deploy-service.ts'', ''gateway'']"
  let ?pre = "[''node'', ''deploy-service.ts'', ''auth'']"
  note th = deployEnv_precedence [of ?a1 "Some ''production''" "Some ''staging''" demo_host
      ?a2 "Some ''production''" ?pre "''auth''" demo_world]
  have m1: "''--env'' \<in> set ?a1" and m2: "''--env'' \<notin> set ?a2" and m3: "''--env'' \<notin> set ?pre"
    by simp_all
  have s: "deployEnv_of ?a1 (Some ''staging'') = Some ''staging''"
    by (simp add: deployEnv_of_def at_index_def)
  have 1: "deployEnv_of ?a1 (Some ''production'') = Some ''staging''"
    using th [THEN conjunct1] m1 s by simp
  have 2: "deployEnv_of ?a2 (Some ''production'') = Some ''production''"
    using th [THEN conjunct2, THEN conjunct1] m2 by blast
  have a: "at_index (?pre @ [''--env'']) 2 = Some ''auth''" by (simp add: at_index_def)
  have d: "disk demo_world (path_join (ROOT demo_host) [''apps'', ''auth'']) \<noteq> None"
    by (simp add: demo_ROOT path_join_def split_on_def demo_world_def demo_disk_def)
  have n: "disk demo_world (path_join (path_join (path_join (ROOT demo_host) [''apps'', ''auth''])
                     [''docker'']) [''compose.yaml'']) = None"
    "disk demo_world (path_join (path_join (path_join (ROOT demo_host) [''apps'', ''auth''])
                     [''docker'']) [''compose.yml'']) = None"
    by (simp_all add: demo_ROOT path_join_def split_on_def demo_world_def demo_disk_def)
  have 3: "deployEnv_of (?pre @ [''--env'']) (Some ''production'') = None"
    using th [THEN conjunct2, THEN conjunct2, THEN conjunct1] m3 by blast
  have 4: "deploy_main demo_host (?pre @ [''--env'']) (Some ''production'') demo_world
       = (Inl (Exit 1),
          demo_world\<lparr>console := console demo_world
               @ [Err (compose_not_found_message ''auth''),
                  Err (checked_message [''compose.yaml'', ''compose.yml''])]\<rparr>)"
    using th [THEN conjunct2, THEN conjunct2, THEN conjunct2] m3 a d n by blast
  have 5: "deploy_main demo_host (?pre @ [''--env'']) (Some ''production'') demo_world
       = (Inl (Exit 1),
          demo_world\<lparr>console := [Err (compose_not_found_message ''auth''),
                                   Err (checked_message [''compose.yaml'', ''compose.yml''])]\<rparr>)"
    using 4 by (simp add: demo_world_def)
  from m1 1 m2 2 m3 a d 3 5 show ?thesis by (intro conjI)
qed

end
